theory Spec2Isabelle
  imports Complex_Main
begin

section \<open>JavaScript values used by the backend\<close>

text \<open>
  The backend is JavaScript on Express and Mongoose. Strings are modelled as
  \<^typ>\<open>string\<close>, numbers that count requests or milliseconds as \<^typ>\<open>int\<close>, a value that
  may be \<open>undefined\<close> or \<open>null\<close> as an \<^typ>\<open>'a option\<close>, and a plain object as an
  association list in insertion order.
\<close>

datatype json =
    JNull
  | JBool bool
  | JNum int
  | JStr string
  | JArr "json list"
  | JObj "(string \<times> json) list"

type_synonym js_object = "(string \<times> json) list"

text \<open>\<open>delete obj.key\<close>: the own property \<open>key\<close> is removed, the others stay in order.\<close>

definition js_delete :: "string \<Rightarrow> js_object \<Rightarrow> js_object" where
  "js_delete k obj = filter (\<lambda>kv. fst kv \<noteq> k) obj"

text \<open>The own property names of an object (\<open>Object.keys\<close>).\<close>

definition js_keys :: "js_object \<Rightarrow> string list" where
  "js_keys obj = map fst obj"

text \<open>
  Truthiness of an optional string: \<open>undefined\<close>, \<open>null\<close> and the empty string are falsy.
\<close>

fun truthy :: "string option \<Rightarrow> bool" where
  "truthy None = False"
| "truthy (Some s) = (s \<noteq> [])"

text \<open>\<open>a || b\<close> on optional strings: the left operand when it is truthy, else the right.\<close>

definition js_or :: "string option \<Rightarrow> string option \<Rightarrow> string option" where
  "js_or a b = (if truthy a then a else b)"

subsection \<open>Strings\<close>

text \<open>
  A character is a code unit below 256 (Latin-1). \<open>\s\<close> and \<open>trim\<close> treat the horizontal
  tab, line feed, vertical tab, form feed, carriage return, space and no-break space as
  white space; \<open>\d\<close> is \<open>[0-9]\<close> and \<open>\w\<close> is \<open>[A-Za-z0-9_]\<close>.
\<close>

definition is_space :: "char \<Rightarrow> bool" where
  "is_space c = (of_char c \<in> {9, 10, 11, 12, 13, 32, 160 :: nat})"

definition is_digit :: "char \<Rightarrow> bool" where
  "is_digit c = (let n = of_char c :: nat in 48 \<le> n \<and> n \<le> 57)"

definition is_word :: "char \<Rightarrow> bool" where
  "is_word c = (let n = of_char c :: nat in
      (48 \<le> n \<and> n \<le> 57) \<or> (65 \<le> n \<and> n \<le> 90) \<or> (97 \<le> n \<and> n \<le> 122) \<or> n = 95)"

text \<open>\<open>toLowerCase\<close>: \<open>A\<close>-\<open>Z\<close> and the Latin-1 capitals (all of 192-222 but the
  multiplication sign 215) move up by 32.\<close>

definition toLower_char :: "char \<Rightarrow> char" where
  "toLower_char c =
     (let n = of_char c :: nat in
      if (65 \<le> n \<and> n \<le> 90) \<or> (192 \<le> n \<and> n \<le> 222 \<and> n \<noteq> 215)
      then char_of (n + 32) else c)"

definition toLowerCase :: "string \<Rightarrow> string" where
  "toLowerCase s = map toLower_char s"

definition trim :: "string \<Rightarrow> string" where
  "trim s = rev (dropWhile is_space (rev (dropWhile is_space s)))"

text \<open>\<open>s.replace(pat, rep)\<close> with a string pattern: the first occurrence of \<open>pat\<close> is
  replaced, the rest of \<open>s\<close> is kept.\<close>

fun js_replace :: "string \<Rightarrow> string \<Rightarrow> string \<Rightarrow> string" where
  "js_replace pat rep [] = (if pat = [] then rep else [])"
| "js_replace pat rep (c # cs) =
     (if take (length pat) (c # cs) = pat then rep @ drop (length pat) (c # cs)
      else c # js_replace pat rep cs)"

text \<open>A number in a template literal: its decimal digits, with a sign when negative.\<close>

fun show_nat :: "nat \<Rightarrow> string" where
  "show_nat n =
     (if n < 10 then [char_of (48 + n)] else show_nat (n div 10) @ [char_of (48 + n mod 10)])"

declare show_nat.simps [simp del]

definition show_int :: "int \<Rightarrow> string" where
  "show_int i = (if i < 0 then CHR ''-'' # show_nat (nat (- i)) else show_nat (nat i))"

subsection \<open>Regular expressions\<close>

text \<open>
  The patterns of the source are anchored at both ends (\<open>^...$\<close>, no flags), so
  \<open>regex.test(s)\<close> asks whether the whole of \<open>s\<close> is in the language of the pattern. The
  language is decided by derivatives.
\<close>

datatype regex =
    Never
  | Empty
  | Class "char \<Rightarrow> bool"
  | Seq regex regex
  | Alt regex regex
  | Star regex

fun nullable :: "regex \<Rightarrow> bool" where
  "nullable Never = False"
| "nullable Empty = True"
| "nullable (Class p) = False"
| "nullable (Seq r s) = (nullable r \<and> nullable s)"
| "nullable (Alt r s) = (nullable r \<or> nullable s)"
| "nullable (Star r) = True"

fun seq :: "regex \<Rightarrow> regex \<Rightarrow> regex" where
  "seq Never s = Never"
| "seq Empty s = s"
| "seq r s = Seq r s"

fun alt :: "regex \<Rightarrow> regex \<Rightarrow> regex" where
  "alt Never s = s"
| "alt r Never = r"
| "alt r s = Alt r s"

fun deriv :: "char \<Rightarrow> regex \<Rightarrow> regex" where
  "deriv c Never = Never"
| "deriv c Empty = Never"
| "deriv c (Class p) = (if p c then Empty else Never)"
| "deriv c (Seq r s) =
     (if nullable r then alt (seq (deriv c r) s) (deriv c s) else seq (deriv c r) s)"
| "deriv c (Alt r s) = alt (deriv c r) (deriv c s)"
| "deriv c (Star r) = seq (deriv c r) (Star r)"

fun regex_test :: "regex \<Rightarrow> string \<Rightarrow> bool" where
  "regex_test r [] = nullable r"
| "regex_test r (c # cs) = regex_test (deriv c r) cs"

definition Lit :: "char \<Rightarrow> regex" where
  "Lit a = Class (\<lambda>c. c = a)"

definition Plus :: "regex \<Rightarrow> regex" where
  "Plus r = Seq r (Star r)"

definition Opt :: "regex \<Rightarrow> regex" where
  "Opt r = Alt Empty r"

text \<open>\<open>r{0,n}\<close>: at most \<open>n\<close> copies of \<open>r\<close>.\<close>

fun Upto :: "nat \<Rightarrow> regex \<Rightarrow> regex" where
  "Upto 0 r = Empty"
| "Upto (Suc n) r = Opt (Seq r (Upto n r))"

text \<open>
  The language of a pattern, as the reference for the matcher: \<open>star A\<close> holds the
  concatenations of finitely many words of \<open>A\<close>.
\<close>

inductive_set star :: "string set \<Rightarrow> string set" for A :: "string set" where
  star_empty: "[] \<in> star A"
| star_more: "u \<in> A \<Longrightarrow> v \<in> star A \<Longrightarrow> u @ v \<in> star A"

fun lang :: "regex \<Rightarrow> string set" where
  "lang Never = {}"
| "lang Empty = {[]}"
| "lang (Class p) = {[c] | c. p c}"
| "lang (Seq r s) = {u @ v | u v. u \<in> lang r \<and> v \<in> lang s}"
| "lang (Alt r s) = lang r \<union> lang s"
| "lang (Star r) = star (lang r)"

subsection \<open>Errors and responses\<close>

text \<open>A thrown error, with the properties the handlers look at.\<close>

record js_error =
  err_name :: string
  err_code :: "string option"
  err_status :: "int option"
  err_message :: string
  err_errors :: "json option"
  err_stack :: "string option"

text \<open>What a middleware or handler does with a request: it sends a response with a
  status and a JSON body, or it calls \<open>next()\<close> and hands on what it attached.\<close>

datatype 'a outcome = Reply int json | Next 'a

fun reply_status :: "'a outcome \<Rightarrow> int option" where
  "reply_status (Reply s b) = Some s"
| "reply_status (Next x) = None"

section \<open>The User model (backend/models/user.js)\<close>

record permission =
  resource :: string
  actions :: "string list"

datatype subscription_type = Free | Basic | Premium | Enterprise

record api_usage =
  dailyRequests :: int
  monthlyRequests :: int
  lastRequestDate :: "int option"
  quotaExceeded :: bool

record activity =
  lastActive :: int

text \<open>
  The fields of the schema that the middleware and the authentication routes read or
  write. Dates are milliseconds since the epoch; a path that is not set is \<open>None\<close>. The
  subscription type is one of the four values of the schema's \<open>enum\<close>. The paths under
  \<open>profile\<close>, \<open>privacy\<close> and \<open>metadata\<close>, the preferences other than the newsletter and
  the counters under \<open>activity\<close> are left out: none of the functions below reads them,
  and the \<open>pre('save')\<close> hook of the schema writes nothing else.
\<close>

record user_doc =
  user_id :: string
  firstName :: "string option"
  lastName :: "string option"
  email :: "string option"
  phone :: "string option"
  password :: "string option"
  role :: string
  isVerified :: bool
  location :: "string option"
  newsletter :: bool
  loginAttempts :: int
  lastLoginAttempt :: "int option"
  lastLogin :: "int option"
  passwordResetToken :: "string option"
  passwordResetExpires :: "int option"
  emailVerificationToken :: "string option"
  emailVerificationExpires :: "int option"
  user_activity :: "activity option"
  subscription :: subscription_type
  permissions :: "permission list"
  apiUsage :: api_usage
  createdAt :: "int option"

subsection \<open>toJSON\<close>

text \<open>
  \<open>toJSON\<close> takes the plain object that Mongoose's \<open>toObject\<close> builds from the document
  and deletes five properties from it. \<open>toObject\<close> is Mongoose's, so it is a parameter.
\<close>

definition toJSON :: "('d \<Rightarrow> js_object) \<Rightarrow> 'd \<Rightarrow> js_object" where
  "toJSON toObject this =
     (let user = toObject this;
          user = js_delete ''password'' user;
          user = js_delete ''passwordResetToken'' user;
          user = js_delete ''passwordResetExpires'' user;
          user = js_delete ''emailVerificationToken'' user;
          user = js_delete ''emailVerificationExpires'' user
      in user)"

text \<open>A \<open>toObject\<close> for the modelled fields: every path that is set becomes a property.\<close>

definition opt_prop :: "string \<Rightarrow> ('a \<Rightarrow> json) \<Rightarrow> 'a option \<Rightarrow> js_object" where
  "opt_prop k f v = (case v of None \<Rightarrow> [] | Some x \<Rightarrow> [(k, f x)])"

definition doc_toObject :: "user_doc \<Rightarrow> js_object" where
  "doc_toObject u =
     [(''_id'', JStr (user_id u))]
     @ opt_prop ''firstName'' JStr (firstName u)
     @ opt_prop ''lastName'' JStr (lastName u)
     @ opt_prop ''email'' JStr (email u)
     @ opt_prop ''phone'' JStr (phone u)
     @ opt_prop ''password'' JStr (password u)
     @ [(''role'', JStr (role u)), (''isVerified'', JBool (isVerified u))]
     @ opt_prop ''location'' JStr (location u)
     @ [(''loginAttempts'', JNum (loginAttempts u))]
     @ opt_prop ''lastLoginAttempt'' JNum (lastLoginAttempt u)
     @ opt_prop ''lastLogin'' JNum (lastLogin u)
     @ opt_prop ''passwordResetToken'' JStr (passwordResetToken u)
     @ opt_prop ''passwordResetExpires'' JNum (passwordResetExpires u)
     @ opt_prop ''emailVerificationToken'' JStr (emailVerificationToken u)
     @ opt_prop ''emailVerificationExpires'' JNum (emailVerificationExpires u)
     @ opt_prop ''createdAt'' JNum (createdAt u)"

subsection \<open>hasPermission\<close>

text \<open>
  \<open>Array.prototype.find\<close> returns the first element that satisfies the predicate, or
  \<open>undefined\<close>. \<open>permission && permission.actions.includes(action)\<close> is then \<open>undefined\<close>
  when no entry was found and a boolean otherwise, so the method returns an optional
  boolean.
\<close>

definition hasPermission :: "user_doc \<Rightarrow> string \<Rightarrow> string \<Rightarrow> bool option" where
  "hasPermission this res action =
     (if role this = ''admin'' then Some True
      else (case find (\<lambda>p. resource p = res) (permissions this) of
              None \<Rightarrow> None
            | Some p \<Rightarrow> Some (action \<in> set (actions p))))"

text \<open>Truthiness of what \<open>hasPermission\<close> returns: only \<open>true\<close> is truthy.\<close>

fun truthy_result :: "bool option \<Rightarrow> bool" where
  "truthy_result (Some b) = b"
| "truthy_result None = False"

subsection \<open>The world outside the process\<close>

text \<open>
  The payload of a token: what the routes sign and what \<open>jwt.verify\<close> gives back.
\<close>

record token_payload =
  tok_userId :: string
  tok_email :: "string option"
  tok_role :: "string option"
  tok_purpose :: "string option"

text \<open>
  What a request finds outside its own code: the clock, the time zone's calendar day of
  a date (\<open>toDateString\<close>), the \<open>jsonwebtoken\<close> and \<open>bcryptjs\<close> libraries and the MongoDB
  driver. A call that throws or rejects returns the error on the left. \<open>db_write\<close> is
  the driver's part of \<open>save\<close>: \<open>None\<close> when the document was written.
\<close>

record env =
  now :: int
  toDateString :: "int \<Rightarrow> string"
  jwt_verify :: "string \<Rightarrow> js_error + token_payload"
  jwt_sign :: "token_payload \<Rightarrow> string \<Rightarrow> string"
  bcrypt_hash :: "string \<Rightarrow> js_error + string"
  bcrypt_compare :: "string \<Rightarrow> string \<Rightarrow> js_error + bool"
  findById :: "string \<Rightarrow> js_error + user_doc option"
  findOne_email :: "string \<Rightarrow> js_error + user_doc option"
  db_write :: "user_doc \<Rightarrow> js_error option"
  new_id :: string
  node_env :: "string option"

definition TypeError :: js_error where
  "TypeError = \<lparr>err_name = ''TypeError'', err_code = None, err_status = None,
     err_message = ''Cannot read properties of undefined'', err_errors = None,
     err_stack = None\<rparr>"

definition ValidationError :: "string list \<Rightarrow> js_error" where
  "ValidationError paths =
     \<lparr>err_name = ''ValidationError'', err_code = None, err_status = None,
      err_message = ''User validation failed'',
      err_errors = Some (JArr (map JStr paths)), err_stack = None\<rparr>"

subsection \<open>updateApiUsage\<close>

datatype limit = Finite int | Infinity

fun exceeds :: "int \<Rightarrow> limit \<Rightarrow> bool" where
  "exceeds n (Finite l) = (n > l)"
| "exceeds n Infinity = False"

record quota =
  daily :: limit
  monthly :: limit

fun quotaLimits :: "subscription_type \<Rightarrow> quota" where
  "quotaLimits Free = \<lparr>daily = Finite 100, monthly = Finite 1000\<rparr>"
| "quotaLimits Basic = \<lparr>daily = Finite 500, monthly = Finite 10000\<rparr>"
| "quotaLimits Premium = \<lparr>daily = Finite 2000, monthly = Finite 50000\<rparr>"
| "quotaLimits Enterprise = \<lparr>daily = Infinity, monthly = Infinity\<rparr>"

text \<open>
  \<open>isNewDay\<close>: the document has no \<open>lastRequestDate\<close>, or its \<open>toDateString()\<close> differs
  from today's. The method changes the document in memory and returns the promise of
  \<open>save\<close>. The result is the document as it stands when the method is left and the error
  it threw or rejected with, if any. Writing \<open>this.activity.lastActive\<close> throws when the
  document has no \<open>activity\<close>; the counters are changed by then, the quota flag is not.
\<close>

definition isNewDay :: "env \<Rightarrow> user_doc \<Rightarrow> bool" where
  "isNewDay e this =
     (case lastRequestDate (apiUsage this) of
        None \<Rightarrow> True
      | Some d \<Rightarrow> toDateString e d \<noteq> toDateString e (now e))"

definition updateApiUsage :: "env \<Rightarrow> user_doc \<Rightarrow> user_doc \<times> js_error option" where
  "updateApiUsage e this =
     (let today = now e;
          au = apiUsage this;
          au = au\<lparr>dailyRequests := (if isNewDay e this then 1 else dailyRequests au + 1)\<rparr>;
          au = au\<lparr>monthlyRequests := monthlyRequests au + 1\<rparr>;
          au = au\<lparr>lastRequestDate := Some today\<rparr>
      in (case user_activity this of
            None \<Rightarrow> (this\<lparr>apiUsage := au\<rparr>, Some TypeError)
          | Some a \<Rightarrow>
              (let userQuota = quotaLimits (subscription this);
                   au = au\<lparr>quotaExceeded :=
                          (exceeds (dailyRequests au) (daily userQuota)
                           \<or> exceeds (monthlyRequests au) (monthly userQuota))\<rparr>;
                   this = this\<lparr>apiUsage := au,
                                user_activity := Some (a\<lparr>lastActive := today\<rparr>)\<rparr>
               in (this, db_write e this))))"

fun subscription_name :: "subscription_type \<Rightarrow> string" where
  "subscription_name Free = ''free''"
| "subscription_name Basic = ''basic''"
| "subscription_name Premium = ''premium''"
| "subscription_name Enterprise = ''enterprise''"

subsection \<open>Schema validators and save\<close>

text \<open>
  The \<open>match\<close> pattern of \<open>email\<close>, \<open>/^\w+([.-]?\w+)*@\w+([.-]?\w+)*(\.\w{2,3})+$/\<close>, and of
  \<open>phone\<close>, \<open>/^[\+]?[1-9][\d]{0,15}$/\<close>.
\<close>

definition dot_or_dash :: "char \<Rightarrow> bool" where
  "dot_or_dash c = (c = CHR ''.'' \<or> c = CHR ''-'')"

definition word_run :: regex where
  "word_run =
     Seq (Plus (Class is_word)) (Star (Seq (Opt (Class dot_or_dash)) (Plus (Class is_word))))"

definition schema_email_match :: regex where
  "schema_email_match =
     Seq word_run (Seq (Lit CHR ''@'') (Seq word_run
       (Plus (Seq (Lit CHR ''.'')
          (Seq (Class is_word) (Seq (Class is_word) (Upto 1 (Class is_word))))))))"

definition is_1_to_9 :: "char \<Rightarrow> bool" where
  "is_1_to_9 c = (let n = of_char c :: nat in 49 \<le> n \<and> n \<le> 57)"

definition schema_phone_match :: regex where
  "schema_phone_match =
     Seq (Opt (Lit CHR ''+'')) (Seq (Class is_1_to_9) (Upto 15 (Class is_digit)))"

definition role_enum :: "string list" where
  "role_enum = [''individual'', ''organization'', ''researcher'', ''government'', ''ngo'',
     ''admin'']"

text \<open>
  Mongoose's validators on the paths of the schema: \<open>required\<close> fails on a missing or
  empty string; \<open>maxLength\<close>, \<open>minLength\<close> and \<open>match\<close> pass on a missing value, and
  \<open>match\<close> on the empty string. The result lists the paths that fail.
\<close>

definition too_long :: "nat \<Rightarrow> string option \<Rightarrow> bool" where
  "too_long n v = (case v of None \<Rightarrow> False | Some s \<Rightarrow> length s > n)"

definition too_short :: "nat \<Rightarrow> string option \<Rightarrow> bool" where
  "too_short n v = (case v of None \<Rightarrow> False | Some s \<Rightarrow> length s < n)"

definition no_match :: "regex \<Rightarrow> string option \<Rightarrow> bool" where
  "no_match r v = (case v of None \<Rightarrow> False | Some s \<Rightarrow> s \<noteq> [] \<and> \<not> regex_test r s)"

definition validate :: "user_doc \<Rightarrow> string list" where
  "validate u =
     (if \<not> truthy (firstName u) \<or> too_long 50 (firstName u) then [''firstName''] else [])
     @ (if \<not> truthy (lastName u) \<or> too_long 50 (lastName u) then [''lastName''] else [])
     @ (if \<not> truthy (email u) \<or> no_match schema_email_match (email u)
        then [''email''] else [])
     @ (if no_match schema_phone_match (phone u) then [''phone''] else [])
     @ (if \<not> truthy (password u) \<or> too_short 8 (password u) then [''password''] else [])
     @ (if role u \<notin> set role_enum then [''role''] else [])
     @ (if too_long 100 (location u) then [''location''] else [])"

text \<open>
  \<open>save\<close> of a new document: the validators run first and a failure rejects with a
  \<open>ValidationError\<close>; then the driver writes the document, with the \<open>createdAt\<close> time stamp.
  \<open>save\<close> of a loaded document is the driver's write.
\<close>

definition save_new :: "env \<Rightarrow> user_doc \<Rightarrow> js_error + user_doc" where
  "save_new e u =
     (case validate u of
        p # ps \<Rightarrow> Inl (ValidationError (p # ps))
      | [] \<Rightarrow>
          (let u = u\<lparr>createdAt := Some (now e)\<rparr>
           in case db_write e u of Some err \<Rightarrow> Inl err | None \<Rightarrow> Inr u))"

definition save :: "env \<Rightarrow> user_doc \<Rightarrow> js_error + user_doc" where
  "save e u = (case db_write e u of Some err \<Rightarrow> Inl err | None \<Rightarrow> Inr u)"

section \<open>The authentication middleware (backend/middleware/auth.js)\<close>

text \<open>
  The part of an Express request the middleware reads, and the two properties it
  attaches: \<open>req.user\<close> (the decoded token) and \<open>req.userDoc\<close> (the loaded document).
\<close>

record request =
  header_Authorization :: "string option"
  header_x_auth_token :: "string option"
  query_token :: "string option"
  req_ip :: string
  req_user :: "token_payload option"
  req_userDoc :: "user_doc option"

definition error_body :: "string \<Rightarrow> string \<Rightarrow> json" where
  "error_body err msg = JObj [(''error'', JStr err), (''message'', JStr msg)]"

text \<open>The token: the \<open>Authorization\<close> header without its first \<open>Bearer \<close>, or the
  \<open>x-auth-token\<close> header, or the \<open>token\<close> query parameter.\<close>

definition request_token :: "request \<Rightarrow> string option" where
  "request_token req =
     js_or (js_or (map_option (js_replace ''Bearer '' []) (header_Authorization req))
                  (header_x_auth_token req))
           (query_token req)"

text \<open>\<open>user.activity.lastActive = new Date(); await user.save()\<close>, when the
  document has an \<open>activity\<close>.\<close>

definition touch_activity :: "env \<Rightarrow> user_doc \<Rightarrow> js_error + user_doc" where
  "touch_activity e user =
     (case user_activity user of
        None \<Rightarrow> Inr user
      | Some a \<Rightarrow>
          save e (user\<lparr>user_activity := Some (a\<lparr>lastActive := now e\<rparr>)\<rparr>))"

text \<open>The \<open>catch\<close> block of \<open>auth\<close>.\<close>

definition auth_catch :: "js_error \<Rightarrow> request outcome" where
  "auth_catch error =
     (if err_name error = ''JsonWebTokenError''
      then Reply 401 (error_body ''Invalid token'' ''Token is malformed or invalid'')
      else if err_name error = ''TokenExpiredError''
      then Reply 401 (error_body ''Token expired'' ''Please log in again'')
      else Reply 500 (error_body ''Authentication error'' ''Unable to authenticate request''))"

text \<open>The \<open>try\<close> block of \<open>auth\<close>: what it does with the request, or the error that
  \<open>jwt.verify\<close>, \<open>User.findById\<close> or \<open>user.save\<close> threw.\<close>

definition auth_try :: "env \<Rightarrow> request \<Rightarrow> js_error + request outcome" where
  "auth_try e req =
     (let token = request_token req in
      if \<not> truthy token
      then Inr (Reply 401 (error_body ''Access denied'' ''No token provided''))
      else (case jwt_verify e (case token of Some t \<Rightarrow> t | None \<Rightarrow> []) of
              Inl error \<Rightarrow> Inl error
            | Inr decoded \<Rightarrow>
                (case findById e (tok_userId decoded) of
                   Inl error \<Rightarrow> Inl error
                 | Inr None \<Rightarrow> Inr (Reply 401 (error_body ''Invalid token'' ''User not found''))
                 | Inr (Some user) \<Rightarrow>
                     (case touch_activity e user of
                        Inl error \<Rightarrow> Inl error
                      | Inr user \<Rightarrow>
                          Inr (Next (req\<lparr>req_user := Some decoded,
                                          req_userDoc := Some user\<rparr>))))))"

definition auth :: "env \<Rightarrow> request \<Rightarrow> request outcome" where
  "auth e req = (case auth_try e req of Inl error \<Rightarrow> auth_catch error | Inr out \<Rightarrow> out)"

text \<open>\<open>optionalAuth\<close> never answers: without a token, and in its \<open>catch\<close> block, it
  clears both properties and goes on; with a token whose user is gone it goes on with
  the request as it came.\<close>

definition optionalAuth :: "env \<Rightarrow> request \<Rightarrow> request outcome" where
  "optionalAuth e req =
     (let token = request_token req;
          anonymous = Next (req\<lparr>req_user := None, req_userDoc := None\<rparr>) in
      if \<not> truthy token then anonymous
      else (case jwt_verify e (case token of Some t \<Rightarrow> t | None \<Rightarrow> []) of
              Inl error \<Rightarrow> anonymous
            | Inr decoded \<Rightarrow>
                (case findById e (tok_userId decoded) of
                   Inl error \<Rightarrow> anonymous
                 | Inr None \<Rightarrow> Next req
                 | Inr (Some user) \<Rightarrow>
                     (case touch_activity e user of
                        Inl error \<Rightarrow> anonymous
                      | Inr user \<Rightarrow>
                          Next (req\<lparr>req_user := Some decoded, req_userDoc := Some user\<rparr>)))))"

text \<open>\<open>roles.includes(req.user.role)\<close>: a token without a role is in no list of role
  names.\<close>

definition authorize :: "string list \<Rightarrow> request \<Rightarrow> request outcome" where
  "authorize roles req =
     (case req_user req of
        None \<Rightarrow> Reply 401 (error_body ''Authentication required''
                   ''Please log in to access this resource'')
      | Some u \<Rightarrow>
          if \<not> (case tok_role u of None \<Rightarrow> False | Some r \<Rightarrow> r \<in> set roles)
          then Reply 403 (error_body ''Access forbidden''
                   ''Insufficient permissions for this resource'')
          else Next req)"

definition requirePermission :: "string \<Rightarrow> string \<Rightarrow> request \<Rightarrow> request outcome" where
  "requirePermission res action req =
     (case req_userDoc req of
        None \<Rightarrow> Reply 401 (error_body ''Authentication required''
                   ''Please log in to access this resource'')
      | Some userDoc \<Rightarrow>
          if \<not> truthy_result (hasPermission userDoc res action)
          then Reply 403 (error_body ''Permission denied''
                   (''You don't have '' @ action @ '' permission for '' @ res))
          else Next req)"

text \<open>
  \<open>checkApiQuota\<close> lets a request without \<open>req.userDoc\<close> through. Otherwise the document
  is updated in place; when \<open>updateApiUsage\<close> throws or rejects, the \<open>catch\<close> block goes on
  with the request.
\<close>

definition checkApiQuota :: "env \<Rightarrow> request \<Rightarrow> request outcome" where
  "checkApiQuota e req =
     (case req_userDoc req of
        None \<Rightarrow> Next req
      | Some userDoc \<Rightarrow>
          (case updateApiUsage e userDoc of
             (userDoc, Some error) \<Rightarrow> Next (req\<lparr>req_userDoc := Some userDoc\<rparr>)
           | (userDoc, None) \<Rightarrow>
               if quotaExceeded (apiUsage userDoc)
               then Reply 429 (JObj
                 [(''error'', JStr ''Quota exceeded''),
                  (''message'', JStr ''API usage limit reached. Please upgrade your subscription or try again later.''),
                  (''quota'', JObj
                     [(''daily'', JNum (dailyRequests (apiUsage userDoc))),
                      (''subscription'', JStr (subscription_name (subscription userDoc)))])])
               else Next (req\<lparr>req_userDoc := Some userDoc\<rparr>)))"

definition requireEmailVerification :: "request \<Rightarrow> request outcome" where
  "requireEmailVerification req =
     (case req_userDoc req of
        None \<Rightarrow> Reply 401 (error_body ''Authentication required''
                   ''Please log in to access this resource'')
      | Some userDoc \<Rightarrow>
          if \<not> isVerified userDoc
          then Reply 403 (error_body ''Email verification required''
                   ''Please verify your email address to access this feature'')
          else Next req)"

subsection \<open>userRateLimit\<close>

text \<open>
  \<open>requestCounts\<close> is a \<open>Map\<close> in the closure of the middleware: it lives as long as
  the process and is passed in and out here. An entry is an object in the map, so the
  increment of its \<open>count\<close> is an update of the map.
\<close>

record rate_entry =
  count :: int
  resetTime :: int

type_synonym request_counts = "string \<rightharpoonup> rate_entry"

text \<open>\<open>req.user?.userId || req.ip\<close>\<close>

definition rate_key :: "request \<Rightarrow> string" where
  "rate_key req =
     (case req_user req of
        None \<Rightarrow> req_ip req
      | Some u \<Rightarrow> if tok_userId u \<noteq> [] then tok_userId u else req_ip req)"

text \<open>The loop that deletes every entry whose \<open>resetTime\<close> is before \<open>now\<close>.\<close>

definition clean_old :: "int \<Rightarrow> request_counts \<Rightarrow> request_counts" where
  "clean_old t requestCounts =
     (\<lambda>key. case requestCounts key of
               None \<Rightarrow> None
             | Some data \<Rightarrow> if resetTime data < t then None else Some data)"

text \<open>\<open>Math.ceil(x / 1000)\<close> on an integer \<open>x\<close>.\<close>

definition ceil_div_1000 :: "int \<Rightarrow> int" where
  "ceil_div_1000 x = - ((- x) div 1000)"

text \<open>
  One request at time \<open>t\<close> (\<open>Date.now()\<close>). The result is the map after the request and
  either the 429 response or the three headers set before \<open>next()\<close>. The source also
  computes \<open>windowStart = now - windowMinutes * 60 * 1000\<close> and never reads it.
\<close>

definition userRateLimit ::
  "int \<Rightarrow> int \<Rightarrow> request_counts \<Rightarrow> int \<Rightarrow> request
     \<Rightarrow> request_counts \<times> (string \<times> int) list outcome" where
  "userRateLimit maxRequests windowMinutes requestCounts t req =
     (let userId = rate_key req;
          requestCounts = clean_old t requestCounts;
          fresh = \<lparr>count = 0, resetTime = t + windowMinutes * 60 * 1000\<rparr>;
          (userRequests, requestCounts) =
            (case requestCounts userId of
               None \<Rightarrow> (fresh, requestCounts(userId \<mapsto> fresh))
             | Some u \<Rightarrow>
                 if resetTime u < t then (fresh, requestCounts(userId \<mapsto> fresh))
                 else (u, requestCounts))
      in if count userRequests \<ge> maxRequests
         then (requestCounts, Reply 429 (JObj
                 [(''error'', JStr ''Rate limit exceeded''),
                  (''message'', JStr (''Too many requests. Limit: '' @ show_int maxRequests
                      @ '' per '' @ show_int windowMinutes @ '' minutes'')),
                  (''resetTime'', JNum (resetTime userRequests))]))
         else (let userRequests = userRequests\<lparr>count := count userRequests + 1\<rparr>
               in (requestCounts(userId \<mapsto> userRequests),
                   Next [(''X-RateLimit-Limit'', maxRequests),
                         (''X-RateLimit-Remaining'', maxRequests - count userRequests),
                         (''X-RateLimit-Reset'', ceil_div_1000 (resetTime userRequests))])))"

text \<open>A run of the middleware over requests that arrive one after the other, each with
  its time: the map at the end and what each request got.\<close>

fun rate_run ::
  "int \<Rightarrow> int \<Rightarrow> request_counts \<Rightarrow> (int \<times> request) list
     \<Rightarrow> request_counts \<times> (string \<times> int) list outcome list" where
  "rate_run maxRequests windowMinutes requestCounts [] = (requestCounts, [])"
| "rate_run maxRequests windowMinutes requestCounts ((t, req) # rest) =
     (let (requestCounts, out) = userRateLimit maxRequests windowMinutes requestCounts t req;
          (requestCounts, outs) = rate_run maxRequests windowMinutes requestCounts rest
      in (requestCounts, out # outs))"

subsection \<open>Windows of the rate limiter\<close>

text \<open>
  What a request at time \<open>t\<close> finds for its key: the count and the reset time of the
  key's entry when the entry is still current, and a new window otherwise.
\<close>

definition window_count :: "request_counts \<Rightarrow> string \<Rightarrow> int \<Rightarrow> int" where
  "window_count requestCounts key t =
     (case requestCounts key of
        None \<Rightarrow> 0
      | Some u \<Rightarrow> if resetTime u < t then 0 else count u)"

definition window_reset :: "int \<Rightarrow> request_counts \<Rightarrow> string \<Rightarrow> int \<Rightarrow> int" where
  "window_reset windowMinutes requestCounts key t =
     (case requestCounts key of
        None \<Rightarrow> t + windowMinutes * 60 * 1000
      | Some u \<Rightarrow> if resetTime u < t then t + windowMinutes * 60 * 1000 else resetTime u)"

text \<open>
  A fixed-window counter for one key, as a reference: a window is opened by the key's
  first request and by its first request after the reset time of the window before; it
  lasts \<open>windowMinutes\<close> minutes and counts the requests admitted in it; a request is
  rejected (\<open>True\<close>) when the count has reached \<open>maxRequests\<close>. The argument is the list
  of the times of the key's requests.
\<close>

definition current_window :: "int \<Rightarrow> rate_entry option \<Rightarrow> int \<Rightarrow> rate_entry" where
  "current_window windowMinutes window t =
     (let opened = \<lparr>count = 0, resetTime = t + windowMinutes * 60 * 1000\<rparr>
      in case window of
           None \<Rightarrow> opened
         | Some win \<Rightarrow> if resetTime win < t then opened else win)"

fun fixed_window :: "int \<Rightarrow> int \<Rightarrow> rate_entry option \<Rightarrow> int list \<Rightarrow> bool list" where
  "fixed_window maxRequests windowMinutes window [] = []"
| "fixed_window maxRequests windowMinutes window (t # ts) =
     (let current = current_window windowMinutes window t
      in if count current \<ge> maxRequests
         then True # fixed_window maxRequests windowMinutes (Some current) ts
         else False # fixed_window maxRequests windowMinutes
                        (Some (current\<lparr>count := count current + 1\<rparr>)) ts)"

text \<open>The requests of one key in a run: whether each was rejected with 429, and their
  times.\<close>

definition rejections_of ::
  "string \<Rightarrow> (int \<times> request) list \<Rightarrow> (string \<times> int) list outcome list \<Rightarrow> bool list" where
  "rejections_of key reqs outs =
     map (\<lambda>(q, out). reply_status out = Some 429)
       (filter (\<lambda>(q, out). rate_key (snd q) = key) (zip reqs outs))"

definition times_of :: "string \<Rightarrow> (int \<times> request) list \<Rightarrow> int list" where
  "times_of key reqs = map fst (filter (\<lambda>q. rate_key (snd q) = key) reqs)"

text \<open>
  The sliding window of the specification: the number of earlier requests of a key that
  lie within the \<open>windowMinutes\<close> minutes before \<open>t\<close>.
\<close>

definition prior_in_window :: "int \<Rightarrow> string \<Rightarrow> int \<Rightarrow> (int \<times> request) list \<Rightarrow> int" where
  "prior_in_window windowMinutes key t prior =
     int (length (filter (\<lambda>(t', req). rate_key req = key
                              \<and> t - windowMinutes * 60 * 1000 < t' \<and> t' \<le> t) prior))"

section \<open>The authentication routes (backend/routes/auth.js)\<close>

text \<open>
  A handler answers every request. Its result is the response and, when a \<open>save\<close>
  succeeded, the document that was written. The routes are mounted behind the limiter of
  the \<open>express-rate-limit\<close> library; the handlers are taken as they run once a request
  has reached them.
\<close>

record response =
  res_status :: int
  res_body :: json

definition send :: "int \<Rightarrow> json \<Rightarrow> response" where
  "send s b = \<lparr>res_status = s, res_body = b\<rparr>"

definition text_of :: "string option \<Rightarrow> string" where
  "text_of v = (case v of None \<Rightarrow> [] | Some s \<Rightarrow> s)"

subsection \<open>POST /signup\<close>

record signup_body =
  body_firstName :: "string option"
  body_lastName :: "string option"
  body_email :: "string option"
  body_phone :: "string option"
  body_password :: "string option"
  body_role :: "string option"
  body_location :: "string option"
  body_newsletter :: "bool option"

text \<open>\<open>/^[^\s@]+@[^\s@]+\.[^\s@]+$/\<close>\<close>

definition not_space_at :: "char \<Rightarrow> bool" where
  "not_space_at c = (\<not> is_space c \<and> c \<noteq> CHR ''@'')"

definition emailRegex :: regex where
  "emailRegex =
     Seq (Plus (Class not_space_at)) (Seq (Lit CHR ''@'')
       (Seq (Plus (Class not_space_at)) (Seq (Lit CHR ''.'') (Plus (Class not_space_at)))))"

text \<open>A part of an address that the pattern accepts: not empty, no white space, no \<open>@\<close>.\<close>

definition email_part :: "string \<Rightarrow> bool" where
  "email_part t = (t \<noteq> [] \<and> (\<forall>x \<in> set t. \<not> is_space x \<and> x \<noteq> CHR ''@''))"

text \<open>
  \<open>new User({...})\<close> in the handler: the fields of the body, through the schema's
  setters (\<open>trim\<close>, and \<open>lowercase\<close> on the email), and the schema's defaults elsewhere.
\<close>

definition new_User :: "env \<Rightarrow> signup_body \<Rightarrow> string \<Rightarrow> user_doc" where
  "new_User e b hashedPassword =
     \<lparr>user_id = new_id e,
      firstName = Some (trim (text_of (body_firstName b))),
      lastName = Some (trim (text_of (body_lastName b))),
      email = Some (trim (toLowerCase (text_of (body_email b)))),
      phone = map_option trim (body_phone b),
      password = Some hashedPassword,
      role = (if truthy (body_role b) then text_of (body_role b) else ''individual''),
      isVerified = False,
      location = map_option trim (body_location b),
      newsletter = (case body_newsletter b of None \<Rightarrow> False | Some n \<Rightarrow> n),
      loginAttempts = 0,
      lastLoginAttempt = None,
      lastLogin = None,
      passwordResetToken = None,
      passwordResetExpires = None,
      emailVerificationToken = None,
      emailVerificationExpires = None,
      user_activity = Some \<lparr>lastActive = now e\<rparr>,
      subscription = Free,
      permissions = [],
      apiUsage = \<lparr>dailyRequests = 0, monthlyRequests = 0, lastRequestDate = None,
                  quotaExceeded = False\<rparr>,
      createdAt = None\<rparr>"

definition auth_payload :: "user_doc \<Rightarrow> token_payload" where
  "auth_payload u =
     \<lparr>tok_userId = user_id u, tok_email = email u, tok_role = Some (role u),
      tok_purpose = None\<rparr>"

definition signup_failed :: response where
  "signup_failed =
     send 500 (error_body ''Registration failed'' ''Unable to create account. Please try again.'')"

text \<open>The \<open>userResponse\<close> object of the handler; a property whose value is \<open>undefined\<close>
  is left out of the JSON.\<close>

definition signup_userResponse :: "user_doc \<Rightarrow> js_object" where
  "signup_userResponse newUser =
     [(''id'', JStr (user_id newUser))]
     @ opt_prop ''firstName'' JStr (firstName newUser)
     @ opt_prop ''lastName'' JStr (lastName newUser)
     @ opt_prop ''email'' JStr (email newUser)
     @ [(''role'', JStr (role newUser)), (''isVerified'', JBool (isVerified newUser))]
     @ opt_prop ''createdAt'' JNum (createdAt newUser)"

text \<open>The three checks on the body that come before the database is consulted.\<close>

definition signup_valid :: "signup_body \<Rightarrow> bool" where
  "signup_valid b =
     (truthy (body_firstName b) \<and> truthy (body_lastName b) \<and> truthy (body_email b)
      \<and> truthy (body_password b)
      \<and> regex_test emailRegex (text_of (body_email b))
      \<and> \<not> length (text_of (body_password b)) < 8)"

definition signup :: "env \<Rightarrow> signup_body \<Rightarrow> response \<times> user_doc option" where
  "signup e b =
     (if \<not> truthy (body_firstName b) \<or> \<not> truthy (body_lastName b)
         \<or> \<not> truthy (body_email b) \<or> \<not> truthy (body_password b)
      then (send 400 (error_body ''Missing required fields''
              ''First name, last name, email, and password are required''), None)
      else if \<not> regex_test emailRegex (text_of (body_email b))
      then (send 400 (error_body ''Invalid email format''
              ''Please provide a valid email address''), None)
      else if length (text_of (body_password b)) < 8
      then (send 400 (error_body ''Weak password''
              ''Password must be at least 8 characters long''), None)
      else (case findOne_email e (toLowerCase (text_of (body_email b))) of
              Inl error \<Rightarrow> (signup_failed, None)
            | Inr (Some existingUser) \<Rightarrow>
                (send 409 (error_body ''User already exists''
                   ''An account with this email already exists''), None)
            | Inr None \<Rightarrow>
                (case bcrypt_hash e (text_of (body_password b)) of
                   Inl error \<Rightarrow> (signup_failed, None)
                 | Inr hashedPassword \<Rightarrow>
                     (case save_new e (new_User e b hashedPassword) of
                        Inl error \<Rightarrow> (signup_failed, None)
                      | Inr newUser \<Rightarrow>
                          (let token = jwt_sign e (auth_payload newUser) ''7d''
                           in (send 201 (JObj
                                 [(''success'', JBool True),
                                  (''message'', JStr ''Account created successfully''),
                                  (''user'', JObj (signup_userResponse newUser)),
                                  (''token'', JStr token)]),
                               Some newUser))))))"

subsection \<open>POST /login\<close>

record login_body =
  login_email :: "string option"
  login_password :: "string option"
  login_rememberMe :: bool

definition login_failed :: response where
  "login_failed =
     send 500 (error_body ''Login failed'' ''Unable to process login. Please try again.'')"

definition invalid_credentials :: response where
  "invalid_credentials =
     send 401 (error_body ''Invalid credentials'' ''Email or password is incorrect'')"

definition account_locked :: response where
  "account_locked =
     send 423 (error_body ''Account locked''
       ''Too many failed login attempts. Please try again later.'')"

definition login_userResponse :: "user_doc \<Rightarrow> js_object" where
  "login_userResponse user =
     [(''id'', JStr (user_id user))]
     @ opt_prop ''firstName'' JStr (firstName user)
     @ opt_prop ''lastName'' JStr (lastName user)
     @ opt_prop ''email'' JStr (email user)
     @ [(''role'', JStr (role user)), (''isVerified'', JBool (isVerified user))]
     @ opt_prop ''lastLogin'' JNum (lastLogin user)"

text \<open>
  The lock test reads \<open>user.lastLoginAttempt.getTime()\<close>, which throws when the document
  has no such date. \<open>bcrypt.compare\<close> rejects when the document has no password hash.
\<close>

definition login :: "env \<Rightarrow> login_body \<Rightarrow> response \<times> user_doc option" where
  "login e b =
     (if \<not> truthy (login_email b) \<or> \<not> truthy (login_password b)
      then (send 400 (error_body ''Missing credentials'' ''Email and password are required''),
            None)
      else (case findOne_email e (toLowerCase (text_of (login_email b))) of
              Inl error \<Rightarrow> (login_failed, None)
            | Inr None \<Rightarrow> (invalid_credentials, None)
            | Inr (Some user) \<Rightarrow>
                if loginAttempts user \<ge> 5 \<and> lastLoginAttempt user = None
                then (login_failed, None)
                else if loginAttempts user \<ge> 5
                        \<and> (case lastLoginAttempt user of
                              None \<Rightarrow> False
                            | Some lastAttempt \<Rightarrow> now e < lastAttempt + 30 * 60 * 1000)
                then (account_locked, None)
                else (case (case password user of
                              None \<Rightarrow> Inl TypeError
                            | Some hash \<Rightarrow> bcrypt_compare e (text_of (login_password b)) hash) of
                        Inl error \<Rightarrow> (login_failed, None)
                      | Inr False \<Rightarrow>
                          (case save e (user\<lparr>loginAttempts := loginAttempts user + 1,
                                             lastLoginAttempt := Some (now e)\<rparr>) of
                             Inl error \<Rightarrow> (login_failed, None)
                           | Inr user \<Rightarrow> (invalid_credentials, Some user))
                      | Inr True \<Rightarrow>
                          (case save e (user\<lparr>loginAttempts := 0,
                                             lastLogin := Some (now e)\<rparr>) of
                             Inl error \<Rightarrow> (login_failed, None)
                           | Inr user \<Rightarrow>
                               (let tokenExpiry = (if login_rememberMe b then ''30d'' else ''7d'');
                                    token = jwt_sign e (auth_payload user) tokenExpiry
                                in (send 200 (JObj
                                      [(''success'', JBool True),
                                       (''message'', JStr ''Login successful''),
                                       (''user'', JObj (login_userResponse user)),
                                       (''token'', JStr token)]),
                                    Some user))))))"

subsection \<open>POST /forgot-password\<close>

definition reset_sent :: response where
  "reset_sent = send 200 (JObj
     [(''success'', JBool True),
      (''message'', JStr ''If an account with this email exists, a password reset link has been sent.'')])"

definition forgot_password :: "env \<Rightarrow> string option \<Rightarrow> response \<times> user_doc option" where
  "forgot_password e email_field =
     (if \<not> truthy email_field
      then (send 400 (error_body ''Missing email'' ''Email is required''), None)
      else (case findOne_email e (toLowerCase (text_of email_field)) of
              Inl error \<Rightarrow>
                (send 500 (error_body ''Password reset failed''
                   ''Unable to process password reset request''), None)
            | Inr None \<Rightarrow> (reset_sent, None)
            | Inr (Some user) \<Rightarrow>
                (let resetToken = jwt_sign e
                       \<lparr>tok_userId = user_id user, tok_email = None, tok_role = None,
                        tok_purpose = Some ''password-reset''\<rparr> ''1h''
                 in case save e (user\<lparr>passwordResetToken := Some resetToken,
                                        passwordResetExpires := Some (now e + 60 * 60 * 1000)\<rparr>) of
                      Inl error \<Rightarrow>
                        (send 500 (error_body ''Password reset failed''
                           ''Unable to process password reset request''), None)
                    | Inr user \<Rightarrow> (reset_sent, Some user))))"

section \<open>The global error handler (backend/server.js)\<close>

text \<open>\<open>error.status || 500\<close>: a missing status and the status 0 are falsy.\<close>

definition status_or_500 :: "int option \<Rightarrow> int" where
  "status_or_500 s = (case s of None \<Rightarrow> 500 | Some n \<Rightarrow> if n = 0 then 500 else n)"

definition errorHandler :: "env \<Rightarrow> js_error \<Rightarrow> response" where
  "errorHandler e error =
     (if err_name error = ''MongoNetworkError'' \<or> err_name error = ''MongoTimeoutError''
      then send 503 (error_body ''Database connection error''
             ''Unable to connect to database. Please try again later.'')
      else if err_name error = ''ValidationError''
      then send 400 (JObj ([(''error'', JStr ''Validation error''),
                            (''message'', JStr (err_message error))]
                           @ opt_prop ''details'' id (err_errors error)))
      else if err_name error = ''JsonWebTokenError''
      then send 401 (error_body ''Authentication error'' ''Invalid or expired token'')
      else if err_code error = Some ''LIMIT_FILE_SIZE''
      then send 413 (error_body ''File too large'' ''File size exceeds 10MB limit'')
      else (let development = (node_env e = Some ''development'')
            in send (status_or_500 (err_status error))
                 (JObj ([(''error'', JStr ''Internal server error''),
                         (''message'', JStr (if development then err_message error
                                             else ''Something went wrong''))]
                        @ (if development then opt_prop ''stack'' JStr (err_stack error)
                           else [])))))"

section \<open>Sample documents, worlds and requests\<close>

text \<open>The five paths that \<open>toJSON\<close> deletes.\<close>

definition sensitive_paths :: "string list" where
  "sensitive_paths = [''password'', ''passwordResetToken'', ''passwordResetExpires'',
     ''emailVerificationToken'', ''emailVerificationExpires'']"

text \<open>A stored account on the free tier, with two permission entries for the same
  resource and all five sensitive paths set.\<close>

definition sample_user :: user_doc where
  "sample_user =
     \<lparr>user_id = ''u1'',
      firstName = Some ''Amina'',
      lastName = Some ''Otieno'',
      email = Some ''amina@example.com'',
      phone = None,
      password = Some ''$2a$12$hash'',
      role = ''individual'',
      isVerified = False,
      location = None,
      newsletter = False,
      loginAttempts = 0,
      lastLoginAttempt = None,
      lastLogin = None,
      passwordResetToken = Some ''reset-token'',
      passwordResetExpires = Some 3600000,
      emailVerificationToken = Some ''verify-token'',
      emailVerificationExpires = Some 7200000,
      user_activity = Some \<lparr>lastActive = 0\<rparr>,
      subscription = Free,
      permissions = [\<lparr>resource = ''sensors'', actions = [''read'']\<rparr>,
                     \<lparr>resource = ''sensors'', actions = [''write'']\<rparr>],
      apiUsage = \<lparr>dailyRequests = 100, monthlyRequests = 100, lastRequestDate = Some 0,
                  quotaExceeded = False\<rparr>,
      createdAt = Some 0\<rparr>"

text \<open>The payload of the sample account's token, and an error with nothing but a name.\<close>

definition sample_payload :: token_payload where
  "sample_payload =
     \<lparr>tok_userId = ''u1'', tok_email = Some ''amina@example.com'',
      tok_role = Some ''individual'', tok_purpose = None\<rparr>"

definition plain_error :: "string \<Rightarrow> js_error" where
  "plain_error n =
     \<lparr>err_name = n, err_code = None, err_status = None, err_message = ''failed'',
      err_errors = None, err_stack = None\<rparr>"

text \<open>A world in which everything works: one token verifies, the database holds the
  sample account and every write succeeds.\<close>

definition sample_env :: env where
  "sample_env =
     \<lparr>now = 1000,
      toDateString = (\<lambda>t. if t div 86400000 = 0 then ''Thu Jan 01 1970'' else ''Another day''),
      jwt_verify = (\<lambda>t. if t = ''good-token'' then Inr sample_payload
                          else Inl (plain_error ''JsonWebTokenError'')),
      jwt_sign = (\<lambda>p expiresIn. ''jwt.'' @ tok_userId p @ ''.'' @ expiresIn),
      bcrypt_hash = (\<lambda>pw. Inr (''hash:'' @ pw)),
      bcrypt_compare = (\<lambda>pw h. Inr (h = ''hash:'' @ pw)),
      findById = (\<lambda>i. Inr (if i = ''u1'' then Some sample_user else None)),
      findOne_email = (\<lambda>m. Inr (if m = ''amina@example.com'' then Some sample_user else None)),
      db_write = (\<lambda>u. None),
      new_id = ''u2'',
      node_env = None\<rparr>"

text \<open>The same world with the database unreachable.\<close>

definition db_down_env :: env where
  "db_down_env =
     sample_env\<lparr>findById := (\<lambda>i. Inl (plain_error ''MongoNetworkError'')),
                findOne_email := (\<lambda>m. Inl (plain_error ''MongoNetworkError'')),
                db_write := (\<lambda>u. Some (plain_error ''MongoNetworkError''))\<rparr>"

text \<open>A request that carries the good token in its \<open>Authorization\<close> header.\<close>

definition sample_request :: request where
  "sample_request =
     \<lparr>header_Authorization = Some ''Bearer good-token'', header_x_auth_token = None,
      query_token = None, req_ip = ''10.0.0.7'', req_user = None, req_userDoc = None\<rparr>"

text \<open>The request of the sample account after \<open>auth\<close> has loaded its document.\<close>

definition quota_request :: request where
  "quota_request = sample_request\<lparr>req_userDoc := Some sample_user\<rparr>"

text \<open>The same request with the decoded token attached, so that it is counted under the
  user id and not under the address.\<close>

definition user_request :: request where
  "user_request = sample_request\<lparr>req_user := Some sample_payload\<rparr>"

text \<open>Four anonymous requests from one address around the end of a one-minute window,
  and a run in which the user's requests and an anonymous one alternate.\<close>

definition burst_trace :: "(int \<times> request) list" where
  "burst_trace = [(0, sample_request), (59000, sample_request), (60001, sample_request),
     (60002, sample_request)]"

definition mixed_trace :: "(int \<times> request) list" where
  "mixed_trace = [(0, user_request), (10, sample_request), (20, user_request),
     (30, user_request), (60001, user_request)]"

text \<open>The world with an empty users collection.\<close>

definition empty_db_env :: env where
  "empty_db_env = sample_env\<lparr>findById := (\<lambda>i. Inr None), findOne_email := (\<lambda>m. Inr None)\<rparr>"

text \<open>The sample account after five failed logins, the last of them at time 0; the
  world that holds it, one second and thirty minutes after that; and a login with the
  right password.\<close>

definition locked_user :: user_doc where
  "locked_user = sample_user\<lparr>password := Some ''hash:correct horse'', loginAttempts := 5,
      lastLoginAttempt := Some 0\<rparr>"

definition locked_env :: env where
  "locked_env = sample_env\<lparr>findOne_email :=
      (\<lambda>m. Inr (if m = ''amina@example.com'' then Some locked_user else None))\<rparr>"

definition later_env :: env where
  "later_env = locked_env\<lparr>now := 30 * 60 * 1000\<rparr>"

definition good_login :: login_body where
  "good_login = \<lparr>login_email = Some ''Amina@Example.com'',
      login_password = Some ''correct horse'', login_rememberMe = False\<rparr>"

text \<open>A well-formed registration, the same with a role that the schema does not know,
  and the same with an address in a top-level domain of four letters.\<close>

definition good_signup :: signup_body where
  "good_signup =
     \<lparr>body_firstName = Some ''Kip'', body_lastName = Some ''Maji'',
      body_email = Some ''Kip@Maji.org'', body_phone = None,
      body_password = Some ''riverbank9'', body_role = None, body_location = None,
      body_newsletter = None\<rparr>"

definition bad_role_signup :: signup_body where
  "bad_role_signup = good_signup\<lparr>body_role := Some ''superuser''\<rparr>"

definition long_tld_signup :: signup_body where
  "long_tld_signup = good_signup\<lparr>body_email := Some ''k@m.info''\<rparr>"

section \<open>Properties of the helpers\<close>

subsection \<open>The matcher decides the language of the pattern\<close>

lemma lang_seq: "lang (seq r s) = lang (Seq r s)"
  by (cases "(r, s)" rule: seq.cases) auto

lemma lang_alt: "lang (alt r s) = lang (Alt r s)"
  by (cases "(r, s)" rule: alt.cases) auto

lemma nullable_lang: "nullable r \<longleftrightarrow> [] \<in> lang r"
  by (induction r) (auto intro: star.intros)

lemma star_Cons:
  "c # s \<in> star A \<longleftrightarrow> (\<exists>u v. s = u @ v \<and> c # u \<in> A \<and> v \<in> star A)"
proof
  assume "c # s \<in> star A"
  then show "\<exists>u v. s = u @ v \<and> c # u \<in> A \<and> v \<in> star A"
  proof (induction "c # s" arbitrary: s rule: star.induct)
    case (star_more u v)
    then show ?case by (cases u) auto
  qed
next
  assume "\<exists>u v. s = u @ v \<and> c # u \<in> A \<and> v \<in> star A"
  then obtain u v where "s = u @ v" "c # u \<in> A" "v \<in> star A" by blast
  then show "c # s \<in> star A"
    using star.star_more [of "c # u" A v] by simp
qed

lemma lang_deriv: "lang (deriv c r) = {s. c # s \<in> lang r}"
proof (induction r)
  case (Seq r1 r2)
  then show ?case
    by (auto simp: lang_seq lang_alt nullable_lang Cons_eq_append_conv)
next
  case (Star r)
  then show ?case
    by (auto simp: lang_seq star_Cons)
qed (auto simp: lang_alt)

theorem regex_test_lang: "regex_test r s \<longleftrightarrow> s \<in> lang r"
  by (induction s arbitrary: r) (simp_all add: nullable_lang lang_deriv)


text \<open>
  The pattern of the signup handler accepts exactly the strings \<open>a@b.c\<close> whose three
  parts are not empty and hold neither white space nor \<open>@\<close>.
\<close>

lemma star_Class: "star {[c] | c. p c} = {s. \<forall>c \<in> set s. p c}"
proof (intro set_eqI iffI)
  fix s assume "s \<in> star {[c] | c. p c}"
  then show "s \<in> {s. \<forall>c \<in> set s. p c}"
    by (induction rule: star.induct) auto
next
  fix s assume "s \<in> {s. \<forall>c \<in> set s. p c}"
  then show "s \<in> star {[c] | c. p c}"
  proof (induction s)
    case Nil
    show ?case by (rule star_empty)
  next
    case (Cons a s)
    then have "[a] \<in> {[c] | c. p c}" "s \<in> star {[c] | c. p c}" by auto
    from star_more [OF this] show ?case by simp
  qed
qed

lemma lang_Plus_Class: "lang (Plus (Class p)) = {s. s \<noteq> [] \<and> (\<forall>c \<in> set s. p c)}"
proof (intro set_eqI iffI)
  fix s assume "s \<in> lang (Plus (Class p))"
  then show "s \<in> {s. s \<noteq> [] \<and> (\<forall>c \<in> set s. p c)}"
    by (auto simp: Plus_def star_Class)
next
  fix s assume "s \<in> {s. s \<noteq> [] \<and> (\<forall>c \<in> set s. p c)}"
  then obtain a t where "s = [a] @ t" "p a" "\<forall>c \<in> set t. p c"
    by (cases s) auto
  then show "s \<in> lang (Plus (Class p))"
    unfolding Plus_def lang.simps star_Class by blast
qed

lemma lang_Lit: "lang (Lit a) = {[a]}"
  by (auto simp: Lit_def)

lemma lang_emailRegex:
  "lang emailRegex =
     {a @ ''@'' @ b @ ''.'' @ c | a b c.
        a \<in> lang (Plus (Class not_space_at)) \<and> b \<in> lang (Plus (Class not_space_at))
        \<and> c \<in> lang (Plus (Class not_space_at))}"
proof -
  have seq: "lang (Seq r s) = {u @ v | u v. u \<in> lang r \<and> v \<in> lang s}" for r s by simp
  show ?thesis
    unfolding emailRegex_def seq lang_Lit
    by (auto; blast)
qed


lemma email_part_lang: "t \<in> lang (Plus (Class not_space_at)) \<longleftrightarrow> email_part t"
  by (simp add: lang_Plus_Class not_space_at_def email_part_def)

theorem emailRegex_test:
  "regex_test emailRegex s \<longleftrightarrow>
     (\<exists>a b c. s = a @ ''@'' @ b @ ''.'' @ c \<and> email_part a \<and> email_part b \<and> email_part c)"
  by (simp only: regex_test_lang lang_emailRegex email_part_lang mem_Collect_eq)

subsection \<open>Rounding up\<close>

lemma ceil_div_1000_ceiling: "ceil_div_1000 x = \<lceil>real_of_int x / 1000\<rceil>"
proof -
  have "\<lfloor>real_of_int (- x) / real_of_int 1000\<rfloor> = (- x) div 1000"
    by (rule floor_divide_of_int_eq)
  then have "\<lfloor>- (real_of_int x / 1000)\<rfloor> = (- x) div 1000" by simp
  then show ?thesis by (simp add: ceil_div_1000_def ceiling_def)
qed

section \<open>Properties of the User model\<close>

subsection \<open>toJSON\<close>

lemma js_keys_delete: "set (js_keys (js_delete k obj)) = set (js_keys obj) - {k}"
  by (auto simp: js_keys_def js_delete_def)

text \<open>
  Claim C10. Whatever object \<open>toObject\<close> builds from a user document, and whatever values
  the document holds, the object that \<open>toJSON\<close> returns has none of the properties
  \<open>password\<close>, \<open>passwordResetToken\<close>, \<open>passwordResetExpires\<close>, \<open>emailVerificationToken\<close> and
  \<open>emailVerificationExpires\<close>: its property names are those of the plain object minus
  these five.
\<close>

theorem toJSON_drops_sensitive:
  "set (js_keys (toJSON toObject this)) = set (js_keys (toObject this)) - set sensitive_paths"
  by (auto simp: toJSON_def Let_def js_keys_delete sensitive_paths_def)

text \<open>On the sample account all five paths are set; none of them is serialized, and the
  email still is.\<close>

theorem toJSON_drops_sensitive_witness:
  "set sensitive_paths \<subseteq> set (js_keys (doc_toObject sample_user))
   \<and> set (js_keys (toJSON doc_toObject sample_user)) \<inter> set sensitive_paths = {}
   \<and> ''email'' \<in> set (js_keys (toJSON doc_toObject sample_user))"
proof -
  have k: "js_keys (doc_toObject sample_user) =
    [''_id'', ''firstName'', ''lastName'', ''email'', ''password'', ''role'', ''isVerified'',
     ''loginAttempts'', ''passwordResetToken'', ''passwordResetExpires'',
     ''emailVerificationToken'', ''emailVerificationExpires'', ''createdAt'']"
    by (simp add: js_keys_def doc_toObject_def sample_user_def opt_prop_def)
  show ?thesis
    using toJSON_drops_sensitive [of doc_toObject sample_user]
    by (simp add: k sensitive_paths_def)
qed

subsection \<open>hasPermission\<close>

text \<open>
  The claim that any entry with the resource and the action grants the permission fails:
  the second entry of the sample account grants \<open>write\<close> on \<open>sensors\<close>, but \<open>find\<close>
  stops at the first entry for \<open>sensors\<close>, which grants \<open>read\<close> only.
\<close>

theorem hasPermission_any_entry_counterexample:
  "role sample_user \<noteq> ''admin''
   \<and> resource (permissions sample_user ! 1) = ''sensors''
   \<and> ''write'' \<in> set (actions (permissions sample_user ! 1))
   \<and> hasPermission sample_user ''sensors'' ''write'' = Some False"
  by (simp add: sample_user_def hasPermission_def)

text \<open>
  Claim C8, amended. \<open>hasPermission(resource, action)\<close> returns \<open>true\<close> for every resource
  and action when the role is \<open>admin\<close>. For every other role it returns a truthy value
  if and only if the first entry of the permissions list whose resource equals the given
  resource has the given action among its actions.
\<close>

theorem hasPermission_first_entry:
  "(role this = ''admin'' \<longrightarrow> hasPermission this res action = Some True)
   \<and> (role this \<noteq> ''admin'' \<longrightarrow>
        truthy_result (hasPermission this res action) =
          (\<exists>i < length (permissions this).
              resource (permissions this ! i) = res
              \<and> (\<forall>j < i. resource (permissions this ! j) \<noteq> res)
              \<and> action \<in> set (actions (permissions this ! i))))"
proof (intro conjI impI)
  assume "role this = ''admin''"
  then show "hasPermission this res action = Some True"
    by (simp add: hasPermission_def)
next
  assume na: "role this \<noteq> ''admin''"
  show "truthy_result (hasPermission this res action) =
          (\<exists>i < length (permissions this).
              resource (permissions this ! i) = res
              \<and> (\<forall>j < i. resource (permissions this ! j) \<noteq> res)
              \<and> action \<in> set (actions (permissions this ! i)))"
  proof (cases "find (\<lambda>p. resource p = res) (permissions this)")
    case None
    then have "\<forall>p \<in> set (permissions this). resource p \<noteq> res"
      by (simp add: find_None_iff)
    then have "\<forall>i < length (permissions this). resource (permissions this ! i) \<noteq> res"
      by simp
    with None na show ?thesis
      by (auto simp: hasPermission_def)
  next
    case (Some p)
    then obtain i where i: "i < length (permissions this)" "resource (permissions this ! i) = res"
      "p = permissions this ! i" "\<forall>j < i. resource (permissions this ! j) \<noteq> res"
      by (auto simp: find_Some_iff)
    have uniq: "k = i" if "k < length (permissions this)" "resource (permissions this ! k) = res"
      "\<forall>j < k. resource (permissions this ! j) \<noteq> res" for k
      using that i by (metis linorder_neqE_nat)
    from Some na i show ?thesis
      by (auto simp: hasPermission_def dest: uniq)
  qed
qed

text \<open>On the sample account: \<open>read\<close> on \<open>sensors\<close> is granted by the first entry, \<open>write\<close>
  is not, and as an administrator the account may do anything.\<close>

theorem hasPermission_first_entry_witness:
  "role sample_user \<noteq> ''admin''
   \<and> truthy_result (hasPermission sample_user ''sensors'' ''read'')
   \<and> \<not> truthy_result (hasPermission sample_user ''sensors'' ''write'')
   \<and> hasPermission (sample_user\<lparr>role := ''admin''\<rparr>) ''reports'' ''delete'' = Some True"
proof -
  have r: "role sample_user \<noteq> ''admin''" by (simp add: sample_user_def)
  have a: "role (sample_user\<lparr>role := ''admin''\<rparr>) = ''admin''" by simp
  have p: "permissions sample_user = [\<lparr>resource = ''sensors'', actions = [''read'']\<rparr>,
                     \<lparr>resource = ''sensors'', actions = [''write'']\<rparr>]"
    by (simp add: sample_user_def)
  have ex: "\<exists>i < length (permissions sample_user).
              resource (permissions sample_user ! i) = ''sensors''
              \<and> (\<forall>j < i. resource (permissions sample_user ! j) \<noteq> ''sensors'')
              \<and> ''read'' \<in> set (actions (permissions sample_user ! i))"
    unfolding p by (rule exI [of _ 0]) simp
  have nex: "\<not> (\<exists>i < length (permissions sample_user).
              resource (permissions sample_user ! i) = ''sensors''
              \<and> (\<forall>j < i. resource (permissions sample_user ! j) \<noteq> ''sensors'')
              \<and> ''write'' \<in> set (actions (permissions sample_user ! i)))"
    unfolding p by (auto simp: less_Suc_eq)
  from hasPermission_first_entry [of sample_user "''sensors''" "''read''"]
       hasPermission_first_entry [of sample_user "''sensors''" "''write''"]
       hasPermission_first_entry [of "sample_user\<lparr>role := ''admin''\<rparr>" "''reports''" "''delete''"]
       r a ex nex
  show ?thesis by blast
qed

text \<open>
  When no two entries of the permissions list name the same resource, the first entry
  for a resource is the only one, and any entry with the resource and the action grants
  the permission.
\<close>

lemma hasPermission_unique_resources:
  assumes "role this \<noteq> ''admin''" "distinct (map resource (permissions this))"
  shows "truthy_result (hasPermission this res action) =
           (\<exists>p \<in> set (permissions this). resource p = res \<and> action \<in> set (actions p))"
proof (cases "find (\<lambda>p. resource p = res) (permissions this)")
  case None
  then have "\<forall>p \<in> set (permissions this). resource p \<noteq> res"
    by (simp add: find_None_iff)
  with None assms(1) show ?thesis by (auto simp: hasPermission_def)
next
  case (Some p)
  then have p: "p \<in> set (permissions this)" "resource p = res"
    by (auto simp: find_Some_iff)
  from assms(2) have inj: "inj_on resource (set (permissions this))"
    by (simp add: distinct_map)
  have uniq: "q = p" if "q \<in> set (permissions this)" "resource q = res" for q
    using inj p that by (blast dest: inj_onD)
  have l: "truthy_result (hasPermission this res action) = (action \<in> set (actions p))"
    using Some assms(1) by (simp add: hasPermission_def)
  have r: "(\<exists>q \<in> set (permissions this). resource q = res \<and> action \<in> set (actions q))
      = (action \<in> set (actions p))"
    using p uniq by blast
  from l r show ?thesis by simp
qed

section \<open>Properties of the middleware\<close>

subsection \<open>Statuses of the failure responses\<close>

lemma sample_token: "request_token sample_request = Some ''good-token''"
  by (simp add: request_token_def sample_request_def js_or_def)

text \<open>
  The claim that every failure response of the middleware carries 401, 403 or 429 fails
  for \<open>auth\<close>: with a valid token and the database unreachable, \<open>User.findById\<close> rejects
  with an error that is not a token error, and the \<open>catch\<close> block answers 500.
\<close>

theorem auth_db_down_counterexample:
  "auth db_down_env sample_request =
     Reply 500 (error_body ''Authentication error'' ''Unable to authenticate request'')
   \<and> (500 :: int) \<notin> {401, 403, 429}"
  by (simp add: auth_def auth_try_def sample_token db_down_env_def sample_env_def
      sample_payload_def auth_catch_def plain_error_def)

lemma auth_catch_status:
  "reply_status (auth_catch error) =
     (if err_name error = ''JsonWebTokenError'' \<or> err_name error = ''TokenExpiredError''
      then Some 401 else Some 500)"
  by (simp add: auth_catch_def)

lemma auth_try_status:
  "auth_try e req = Inr out \<Longrightarrow> reply_status out \<in> {None, Some 401}"
  by (auto simp: auth_try_def Let_def split: if_splits sum.splits option.splits)

lemma auth_status:
  "reply_status (auth e req) \<in> {None, Some 401, Some 500}"
  using auth_try_status [of e req]
  by (auto simp: auth_def auth_catch_status split: sum.splits)

lemma auth_500_iff:
  "reply_status (auth e req) = Some 500 \<longleftrightarrow>
     (\<exists>error. auth_try e req = Inl error \<and> err_name error \<noteq> ''JsonWebTokenError''
         \<and> err_name error \<noteq> ''TokenExpiredError'')"
  using auth_try_status [of e req]
  by (auto simp: auth_def auth_catch_status split: sum.splits)

lemma optionalAuth_status: "reply_status (optionalAuth e req) = None"
  by (auto simp: optionalAuth_def Let_def split: sum.splits option.splits)

lemma authorize_status: "reply_status (authorize roles req) \<in> {None, Some 401, Some 403}"
  by (auto simp: authorize_def split: option.splits)

lemma requirePermission_status:
  "reply_status (requirePermission res action req) \<in> {None, Some 401, Some 403}"
  by (auto simp: requirePermission_def split: option.splits)

lemma checkApiQuota_status: "reply_status (checkApiQuota e req) \<in> {None, Some 429}"
  by (auto simp: checkApiQuota_def split: option.splits prod.splits)

lemma requireEmailVerification_status:
  "reply_status (requireEmailVerification req) \<in> {None, Some 401, Some 403}"
  by (auto simp: requireEmailVerification_def split: option.splits)

lemma userRateLimit_status:
  "reply_status (snd (userRateLimit maxRequests windowMinutes requestCounts t req))
     \<in> {None, Some 429}"
  by (auto simp: userRateLimit_def Let_def split: option.splits prod.splits)

text \<open>
  Claim C1, amended. Every failure response of \<open>authorize\<close>, \<open>requirePermission\<close>,
  \<open>checkApiQuota\<close>, \<open>requireEmailVerification\<close> and \<open>userRateLimit\<close> carries status 401, 403
  or 429, and \<open>optionalAuth\<close> never rejects a request. \<open>auth\<close> answers 401 or 500, and it
  answers 500 exactly when its \<open>try\<close> block throws an error whose name is neither
  \<open>JsonWebTokenError\<close> nor \<open>TokenExpiredError\<close>. No other status is returned.
\<close>

theorem middleware_failure_statuses:
  "reply_status (auth e req) \<in> {None, Some 401, Some 500}
   \<and> (reply_status (auth e req) = Some 500 \<longleftrightarrow>
        (\<exists>error. auth_try e req = Inl error \<and> err_name error \<noteq> ''JsonWebTokenError''
            \<and> err_name error \<noteq> ''TokenExpiredError''))
   \<and> reply_status (optionalAuth e req) = None
   \<and> reply_status (authorize roles req) \<in> {None, Some 401, Some 403}
   \<and> reply_status (requirePermission res action req) \<in> {None, Some 401, Some 403}
   \<and> reply_status (checkApiQuota e req) \<in> {None, Some 429}
   \<and> reply_status (requireEmailVerification req) \<in> {None, Some 401, Some 403}
   \<and> reply_status (snd (userRateLimit maxRequests windowMinutes requestCounts t req))
        \<in> {None, Some 429}"
  using auth_status auth_500_iff optionalAuth_status authorize_status requirePermission_status
    checkApiQuota_status requireEmailVerification_status userRateLimit_status
  by blast

text \<open>With the database down \<open>auth\<close> answers 500 because \<open>findById\<close> threw; without a
  token it answers 401; \<open>authorize\<close> answers 401 to an anonymous request and
  \<open>requireEmailVerification\<close> 403 to the unverified sample account.\<close>

theorem middleware_failure_statuses_witness:
  "reply_status (auth db_down_env sample_request) = Some 500
   \<and> auth_try db_down_env sample_request = Inl (plain_error ''MongoNetworkError'')
   \<and> reply_status (auth sample_env (sample_request\<lparr>header_Authorization := None\<rparr>)) = Some 401
   \<and> reply_status (authorize [''admin''] sample_request) = Some 401
   \<and> reply_status (requireEmailVerification
         (sample_request\<lparr>req_userDoc := Some sample_user\<rparr>)) = Some 403"
proof -
  have t: "auth_try db_down_env sample_request = Inl (plain_error ''MongoNetworkError'')"
    by (simp add: auth_try_def sample_token db_down_env_def sample_env_def sample_payload_def)
  have n: "err_name (plain_error ''MongoNetworkError'') \<noteq> ''JsonWebTokenError''
     \<and> err_name (plain_error ''MongoNetworkError'') \<noteq> ''TokenExpiredError''"
    by (simp add: plain_error_def)
  have a: "reply_status (auth sample_env (sample_request\<lparr>header_Authorization := None\<rparr>)) = Some 401"
    by (simp add: auth_def auth_try_def request_token_def sample_request_def js_or_def)
  have z: "reply_status (authorize [''admin''] sample_request) = Some 401"
    by (simp add: authorize_def sample_request_def)
  have v: "reply_status (requireEmailVerification
         (sample_request\<lparr>req_userDoc := Some sample_user\<rparr>)) = Some 403"
    by (simp add: requireEmailVerification_def sample_user_def)
  from middleware_failure_statuses [of db_down_env sample_request] t n
  have "reply_status (auth db_down_env sample_request) = Some 500" by blast
  with t a z v show ?thesis by simp
qed

subsection \<open>checkApiQuota\<close>

lemma updateApiUsage_counters:
  "dailyRequests (apiUsage (fst (updateApiUsage e u))) =
     (if isNewDay e u then 1 else dailyRequests (apiUsage u) + 1)
   \<and> monthlyRequests (apiUsage (fst (updateApiUsage e u))) = monthlyRequests (apiUsage u) + 1"
  by (auto simp: updateApiUsage_def Let_def split: option.splits)

lemma updateApiUsage_flag:
  "snd (updateApiUsage e u) = None \<Longrightarrow>
     quotaExceeded (apiUsage (fst (updateApiUsage e u))) =
       (exceeds (dailyRequests (apiUsage (fst (updateApiUsage e u)))) (daily (quotaLimits (subscription u)))
        \<or> exceeds (monthlyRequests (apiUsage (fst (updateApiUsage e u)))) (monthly (quotaLimits (subscription u))))"
  by (auto simp: updateApiUsage_def Let_def split: option.splits)

lemma exceeds_tier:
  "(exceeds d (daily (quotaLimits s)) \<or> exceeds m (monthly (quotaLimits s))) =
     (case s of
        Free \<Rightarrow> d > 100 \<or> m > 1000
      | Basic \<Rightarrow> d > 500 \<or> m > 10000
      | Premium \<Rightarrow> d > 2000 \<or> m > 50000
      | Enterprise \<Rightarrow> False)"
  by (cases s) simp_all

lemma checkApiQuota_saved:
  "req_userDoc req = Some u \<Longrightarrow> snd (updateApiUsage e u) = None \<Longrightarrow>
     (reply_status (checkApiQuota e req) = Some 429) =
       quotaExceeded (apiUsage (fst (updateApiUsage e u)))"
  by (cases "updateApiUsage e u") (auto simp: checkApiQuota_def)

lemma checkApiQuota_thrown:
  "req_userDoc req = Some u \<Longrightarrow> snd (updateApiUsage e u) \<noteq> None \<Longrightarrow>
     checkApiQuota e req = Next (req\<lparr>req_userDoc := Some (fst (updateApiUsage e u))\<rparr>)"
  by (cases "updateApiUsage e u") (auto simp: checkApiQuota_def)

text \<open>
  The claim that an authenticated request is rejected exactly when the updated counters
  exceed the tier's limit fails when the update cannot be saved: the sample account is on
  the free tier with 100 requests today, the update makes it 101, the database is
  unreachable, and the \<open>catch\<close> block lets the request pass.
\<close>

theorem checkApiQuota_fail_open_counterexample:
  "req_userDoc quota_request = Some sample_user
   \<and> subscription sample_user = Free
   \<and> dailyRequests (apiUsage (fst (updateApiUsage db_down_env sample_user))) = 101
   \<and> reply_status (checkApiQuota db_down_env quota_request) = None"
  by (simp add: quota_request_def checkApiQuota_def updateApiUsage_def isNewDay_def
      sample_user_def db_down_env_def sample_env_def Let_def)

text \<open>
  Claim C6, amended. For every authenticated request passing through \<open>checkApiQuota\<close> the
  usage counters are updated first: the daily counter becomes 1 on a new calendar day and
  is incremented otherwise, the monthly counter is always incremented. When the update
  was saved, the request is rejected with status 429 exactly when the updated counters
  exceed the tier's daily or monthly limit (free 100/1000, basic 500/10000, premium
  2000/50000, enterprise unlimited), and passes with the updated document otherwise. When
  \<open>updateApiUsage\<close> throws or its \<open>save\<close> is rejected, the request passes. A request with
  no authenticated user always passes.
\<close>

theorem checkApiQuota_counts_then_limits:
  "(req_userDoc req = None \<longrightarrow> checkApiQuota e req = Next req)
   \<and> (req_userDoc req = Some u \<longrightarrow>
        (let u' = fst (updateApiUsage e u);
             thrown = snd (updateApiUsage e u);
             d = dailyRequests (apiUsage u');
             m = monthlyRequests (apiUsage u')
         in d = (if isNewDay e u then 1 else dailyRequests (apiUsage u) + 1)
            \<and> m = monthlyRequests (apiUsage u) + 1
            \<and> (thrown = None \<longrightarrow>
                 (reply_status (checkApiQuota e req) = Some 429) =
                   (case subscription u of
                      Free \<Rightarrow> d > 100 \<or> m > 1000
                    | Basic \<Rightarrow> d > 500 \<or> m > 10000
                    | Premium \<Rightarrow> d > 2000 \<or> m > 50000
                    | Enterprise \<Rightarrow> False))
            \<and> (thrown = None \<and> reply_status (checkApiQuota e req) \<noteq> Some 429 \<longrightarrow>
                 checkApiQuota e req = Next (req\<lparr>req_userDoc := Some u'\<rparr>))
            \<and> (thrown \<noteq> None \<longrightarrow>
                 checkApiQuota e req = Next (req\<lparr>req_userDoc := Some u'\<rparr>))))"
proof (intro conjI impI)
  assume "req_userDoc req = None"
  then show "checkApiQuota e req = Next req" by (simp add: checkApiQuota_def)
next
  assume u: "req_userDoc req = Some u"
  have ok: "(reply_status (checkApiQuota e req) = Some 429) =
       (case subscription u of
          Free \<Rightarrow> dailyRequests (apiUsage (fst (updateApiUsage e u))) > 100
                 \<or> monthlyRequests (apiUsage (fst (updateApiUsage e u))) > 1000
        | Basic \<Rightarrow> dailyRequests (apiUsage (fst (updateApiUsage e u))) > 500
                 \<or> monthlyRequests (apiUsage (fst (updateApiUsage e u))) > 10000
        | Premium \<Rightarrow> dailyRequests (apiUsage (fst (updateApiUsage e u))) > 2000
                 \<or> monthlyRequests (apiUsage (fst (updateApiUsage e u))) > 50000
        | Enterprise \<Rightarrow> False)"
    if "snd (updateApiUsage e u) = None"
    using checkApiQuota_saved [OF u that] updateApiUsage_flag [OF that]
    by (simp only: exceeds_tier)
  have pass: "checkApiQuota e req = Next (req\<lparr>req_userDoc := Some (fst (updateApiUsage e u))\<rparr>)"
    if "snd (updateApiUsage e u) = None" "reply_status (checkApiQuota e req) \<noteq> Some 429"
    using that u by (cases "updateApiUsage e u") (auto simp: checkApiQuota_def split: if_splits)
  show "let u' = fst (updateApiUsage e u);
             thrown = snd (updateApiUsage e u);
             d = dailyRequests (apiUsage u');
             m = monthlyRequests (apiUsage u')
         in d = (if isNewDay e u then 1 else dailyRequests (apiUsage u) + 1)
            \<and> m = monthlyRequests (apiUsage u) + 1
            \<and> (thrown = None \<longrightarrow>
                 (reply_status (checkApiQuota e req) = Some 429) =
                   (case subscription u of
                      Free \<Rightarrow> d > 100 \<or> m > 1000
                    | Basic \<Rightarrow> d > 500 \<or> m > 10000
                    | Premium \<Rightarrow> d > 2000 \<or> m > 50000
                    | Enterprise \<Rightarrow> False))
            \<and> (thrown = None \<and> reply_status (checkApiQuota e req) \<noteq> Some 429 \<longrightarrow>
                 checkApiQuota e req = Next (req\<lparr>req_userDoc := Some u'\<rparr>))
            \<and> (thrown \<noteq> None \<longrightarrow>
                 checkApiQuota e req = Next (req\<lparr>req_userDoc := Some u'\<rparr>))"
    unfolding Let_def
    using updateApiUsage_counters [of e u] ok pass checkApiQuota_thrown [OF u]
    by blast
qed

text \<open>The sample account's 101st request of the day is rejected when the update is
  saved and passes when the database is down; an anonymous request passes.\<close>

theorem checkApiQuota_counts_then_limits_witness:
  "req_userDoc quota_request = Some sample_user
   \<and> snd (updateApiUsage sample_env sample_user) = None
   \<and> \<not> isNewDay sample_env sample_user
   \<and> dailyRequests (apiUsage (fst (updateApiUsage sample_env sample_user))) = 101
   \<and> monthlyRequests (apiUsage (fst (updateApiUsage sample_env sample_user))) = 101
   \<and> reply_status (checkApiQuota sample_env quota_request) = Some 429
   \<and> snd (updateApiUsage db_down_env sample_user) \<noteq> None
   \<and> reply_status (checkApiQuota db_down_env quota_request) = None
   \<and> checkApiQuota sample_env sample_request = Next sample_request"
proof -
  have u: "req_userDoc quota_request = Some sample_user"
    by (simp add: quota_request_def)
  have n: "req_userDoc sample_request = None"
    by (simp add: sample_request_def)
  have s: "snd (updateApiUsage sample_env sample_user) = None"
    by (simp add: updateApiUsage_def isNewDay_def sample_user_def sample_env_def Let_def)
  have f: "snd (updateApiUsage db_down_env sample_user) \<noteq> None"
    by (simp add: updateApiUsage_def isNewDay_def sample_user_def sample_env_def
        db_down_env_def Let_def)
  have d: "\<not> isNewDay sample_env sample_user"
    by (simp add: isNewDay_def sample_user_def sample_env_def)
  have t: "subscription sample_user = Free" "dailyRequests (apiUsage sample_user) = 100"
    "monthlyRequests (apiUsage sample_user) = 100"
    by (simp_all add: sample_user_def)
  from checkApiQuota_counts_then_limits [of quota_request sample_env sample_user]
       checkApiQuota_counts_then_limits [of quota_request db_down_env sample_user]
       checkApiQuota_counts_then_limits [of sample_request sample_env sample_user]
       u n s f d t
  show ?thesis by (simp add: Let_def)
qed

subsection \<open>userRateLimit\<close>

lemma userRateLimit_reject:
  "window_count rc (rate_key req) t \<ge> m \<Longrightarrow>
   userRateLimit m w rc t req =
     ((clean_old t rc)(rate_key req \<mapsto>
         \<lparr>count = window_count rc (rate_key req) t, resetTime = window_reset w rc (rate_key req) t\<rparr>),
      Reply 429 (JObj
                 [(''error'', JStr ''Rate limit exceeded''),
                  (''message'', JStr (''Too many requests. Limit: '' @ show_int m
                      @ '' per '' @ show_int w @ '' minutes'')),
                  (''resetTime'', JNum (window_reset w rc (rate_key req) t))]))"
  by (auto simp: userRateLimit_def Let_def window_count_def window_reset_def clean_old_def
      split: option.splits intro!: ext)

lemma userRateLimit_admit:
  "\<not> window_count rc (rate_key req) t \<ge> m \<Longrightarrow>
   userRateLimit m w rc t req =
     ((clean_old t rc)(rate_key req \<mapsto>
         \<lparr>count = window_count rc (rate_key req) t + 1,
          resetTime = window_reset w rc (rate_key req) t\<rparr>),
      Next [(''X-RateLimit-Limit'', m),
            (''X-RateLimit-Remaining'', m - (window_count rc (rate_key req) t + 1)),
            (''X-RateLimit-Reset'', ceil_div_1000 (window_reset w rc (rate_key req) t))])"
  by (auto simp: userRateLimit_def Let_def window_count_def window_reset_def clean_old_def
      split: option.splits intro!: ext)

lemma userRateLimit_429_iff:
  "(reply_status (snd (userRateLimit m w rc t req)) = Some 429) =
     (window_count rc (rate_key req) t \<ge> m)"
  by (cases "window_count rc (rate_key req) t \<ge> m")
    (simp_all add: userRateLimit_reject userRateLimit_admit)

lemma userRateLimit_other_key:
  "k \<noteq> rate_key req \<Longrightarrow> fst (userRateLimit m w rc t req) k = clean_old t rc k"
  by (cases "window_count rc (rate_key req) t \<ge> m")
    (simp_all add: userRateLimit_reject userRateLimit_admit)

lemma userRateLimit_same_key:
  "fst (userRateLimit m w rc t req) (rate_key req) =
     Some \<lparr>count = (if window_count rc (rate_key req) t \<ge> m
                     then window_count rc (rate_key req) t
                     else window_count rc (rate_key req) t + 1),
           resetTime = window_reset w rc (rate_key req) t\<rparr>"
  by (cases "window_count rc (rate_key req) t \<ge> m")
    (simp_all add: userRateLimit_reject userRateLimit_admit)

text \<open>
  Claim C7. Every request admitted by \<open>userRateLimit\<close> has exactly the headers
  \<open>X-RateLimit-Limit\<close>, \<open>X-RateLimit-Remaining\<close> and \<open>X-RateLimit-Reset\<close> set. The limit is
  \<open>maxRequests\<close>; the remaining number is \<open>maxRequests\<close> minus the count stored for the key
  after the increment, which is the count of the key's current window plus one, and it
  is never negative; the reset is the stored reset time in seconds, rounded up.
\<close>

theorem userRateLimit_headers:
  assumes "userRateLimit maxRequests windowMinutes requestCounts t req = (requestCounts', Next headers)"
  shows "\<exists>userRequests.
           requestCounts' (rate_key req) = Some userRequests
           \<and> count userRequests = window_count requestCounts (rate_key req) t + 1
           \<and> headers = [(''X-RateLimit-Limit'', maxRequests),
                         (''X-RateLimit-Remaining'', maxRequests - count userRequests),
                         (''X-RateLimit-Reset'', ceil_div_1000 (resetTime userRequests))]
           \<and> 0 \<le> maxRequests - count userRequests"
proof (cases "window_count requestCounts (rate_key req) t \<ge> maxRequests")
  case True
  from userRateLimit_reject [OF True, of windowMinutes] assms show ?thesis by simp
next
  case False
  from userRateLimit_admit [OF False, of windowMinutes] assms False show ?thesis by auto
qed

text \<open>The first anonymous request under a limit of two per minute: one request remains and
  the window ends after 60 seconds.\<close>

theorem userRateLimit_headers_witness:
  "\<exists>requestCounts'. userRateLimit 2 1 Map.empty 0 sample_request =
       (requestCounts', Next [(''X-RateLimit-Limit'', 2), (''X-RateLimit-Remaining'', 1),
                              (''X-RateLimit-Reset'', 60)])"
proof -
  obtain rc' hs where r: "userRateLimit 2 1 Map.empty 0 sample_request = (rc', Next hs)"
    by (simp add: userRateLimit_def Let_def clean_old_def)
  from userRateLimit_headers [OF r] obtain u where u: "rc' (rate_key sample_request) = Some u"
    "count u = window_count Map.empty (rate_key sample_request) 0 + 1"
    "hs = [(''X-RateLimit-Limit'', 2), (''X-RateLimit-Remaining'', 2 - count u),
           (''X-RateLimit-Reset'', ceil_div_1000 (resetTime u))]"
    by blast
  have "resetTime u = 60000"
    using r u(1) by (auto simp: userRateLimit_def Let_def clean_old_def)
  with u r show ?thesis
    by (simp add: window_count_def ceil_div_1000_def)
qed

text \<open>
  No window ever counts more than \<open>maxRequests\<close> admitted requests: the bound on the
  stored counts is kept by every request.
\<close>

lemma userRateLimit_count_bound:
  assumes "\<forall>k u. requestCounts k = Some u \<longrightarrow> count u \<le> max 0 maxRequests"
  shows "\<forall>k u. fst (userRateLimit maxRequests windowMinutes requestCounts t req) k = Some u
           \<longrightarrow> count u \<le> max 0 maxRequests"
proof (intro allI impI)
  fix k u
  assume s: "fst (userRateLimit maxRequests windowMinutes requestCounts t req) k = Some u"
  have w: "window_count requestCounts (rate_key req) t \<le> max 0 maxRequests"
    using assms by (auto simp: window_count_def split: option.splits)
  show "count u \<le> max 0 maxRequests"
  proof (cases "k = rate_key req")
    case True
    with s w show ?thesis
      by (auto simp: userRateLimit_same_key split: if_splits)
  next
    case False
    with s have "clean_old t requestCounts k = Some u"
      by (simp add: userRateLimit_other_key)
    then have "requestCounts k = Some u"
      by (auto simp: clean_old_def split: option.splits if_splits)
    with assms show ?thesis by blast
  qed
qed

lemma rate_run_Cons:
  "snd (rate_run m w rc ((t, req) # rest)) =
     snd (userRateLimit m w rc t req) # snd (rate_run m w (fst (userRateLimit m w rc t req)) rest)"
  by (simp add: Let_def split: prod.splits)

lemma rate_run_refines:
  assumes "sorted (map fst reqs)" "\<forall>q \<in> set reqs. t0 \<le> fst q"
    "rc k = window \<or> (rc k = None \<and> (\<exists>win. window = Some win \<and> resetTime win < t0))"
  shows "rejections_of k reqs (snd (rate_run m w rc reqs)) = fixed_window m w window (times_of k reqs)"
  using assms
proof (induction reqs arbitrary: rc window t0)
  case Nil
  then show ?case by (simp add: rejections_of_def times_of_def)
next
  case (Cons q rest)
  obtain t req where q: "q = (t, req)" by (cases q)
  let ?rc1 = "fst (userRateLimit m w rc t req)"
  from Cons.prems q have sorted_rest: "sorted (map fst rest)" and later: "\<forall>q \<in> set rest. t \<le> fst q"
    and t0: "t0 \<le> t"
    by auto
  show ?case
  proof (cases "rate_key req = k")
    case True
    let ?current = "current_window w window t"
    from Cons.prems(3) t0 have c: "count ?current = window_count rc k t"
      and r: "resetTime ?current = window_reset w rc k t"
      by (auto simp: current_window_def window_count_def window_reset_def split: option.splits)
    let ?window1 = "Some (if count ?current \<ge> m then ?current
                           else ?current\<lparr>count := count ?current + 1\<rparr>)"
    have rc1: "?rc1 k = ?window1"
      using userRateLimit_same_key [of m w rc t req] True c r
      by (cases "window_count rc k t \<ge> m") (simp_all)
    have ih: "rejections_of k rest (snd (rate_run m w ?rc1 rest)) =
        fixed_window m w ?window1 (times_of k rest)"
      by (rule Cons.IH [OF sorted_rest later]) (simp add: rc1)
    have dec: "(reply_status (snd (userRateLimit m w rc t req)) = Some 429) = (count ?current \<ge> m)"
      using userRateLimit_429_iff [of m w rc t req] True c by simp
    have l: "rejections_of k (q # rest) (snd (rate_run m w rc (q # rest))) =
        (count ?current \<ge> m) # rejections_of k rest (snd (rate_run m w ?rc1 rest))"
      using True dec by (simp add: q rate_run_Cons rejections_of_def del: rate_run.simps)
    have rr: "fixed_window m w window (times_of k (q # rest)) =
        (count ?current \<ge> m) # fixed_window m w ?window1 (times_of k rest)"
      using True by (simp add: q times_of_def Let_def)
    from l rr ih show ?thesis by simp
  next
    case False
    have rc1: "?rc1 k = clean_old t rc k"
      using userRateLimit_other_key [of k req m w rc t] False by simp
    have rel: "?rc1 k = window \<or> (?rc1 k = None \<and> (\<exists>win. window = Some win \<and> resetTime win < t))"
      using Cons.prems(3) t0 unfolding rc1
      by (auto simp: clean_old_def split: option.splits)
    have ih: "rejections_of k rest (snd (rate_run m w ?rc1 rest)) =
        fixed_window m w window (times_of k rest)"
      by (rule Cons.IH [OF sorted_rest later]) (rule rel)
    have l: "rejections_of k (q # rest) (snd (rate_run m w rc (q # rest))) =
        rejections_of k rest (snd (rate_run m w ?rc1 rest))"
      using False by (simp add: q rate_run_Cons rejections_of_def del: rate_run.simps)
    have rr: "fixed_window m w window (times_of k (q # rest)) =
        fixed_window m w window (times_of k rest)"
      using False by (simp add: q times_of_def)
    from l rr ih show ?thesis by simp
  qed
qed

lemma sample_rate_keys: "rate_key sample_request = ''10.0.0.7''" "rate_key user_request = ''u1''"
  by (simp_all add: rate_key_def sample_request_def user_request_def sample_payload_def)

text \<open>
  The claim that the limiter is a sliding-window counter fails. Under a limit of two
  requests per minute the requests at 0 s and 59 s are admitted, the one at 60.001 s
  opens a new window, and the one at 60.002 s is admitted too, although two earlier
  requests (at 59 s and 60.001 s) lie within the minute before it.
\<close>

theorem userRateLimit_sliding_counterexample:
  "map reply_status (snd (rate_run 2 1 Map.empty burst_trace)) = [None, None, None, None]
   \<and> prior_in_window 1 (rate_key sample_request) 60002 (take 3 burst_trace) = 2"
  by (simp add: burst_trace_def userRateLimit_def Let_def clean_old_def sample_rate_keys prior_in_window_def)

text \<open>
  Claim C4, amended. \<open>userRateLimit\<close> keeps a process-local in-memory map and implements a
  fixed-window counter for each user id (or address when unauthenticated): a request is
  rejected with status 429 exactly when the count of its key's current window has
  reached \<open>maxRequests\<close>, and is admitted otherwise; and over every sequence of requests
  that arrive in the order of their times, starting from the empty map, the requests of
  one key are rejected exactly as the fixed-window counter for that key alone rejects
  them, whatever the other keys do.
\<close>

theorem userRateLimit_fixed_window:
  "(reply_status (snd (userRateLimit maxRequests windowMinutes requestCounts t req)) = Some 429)
     = (window_count requestCounts (rate_key req) t \<ge> maxRequests)
   \<and> (sorted (map fst reqs) \<longrightarrow>
        rejections_of key reqs (snd (rate_run maxRequests windowMinutes Map.empty reqs)) =
          fixed_window maxRequests windowMinutes None (times_of key reqs))"
proof (intro conjI impI)
  show "(reply_status (snd (userRateLimit maxRequests windowMinutes requestCounts t req)) = Some 429)
     = (window_count requestCounts (rate_key req) t \<ge> maxRequests)"
    by (rule userRateLimit_429_iff)
next
  assume sorted: "sorted (map fst reqs)"
  show "rejections_of key reqs (snd (rate_run maxRequests windowMinutes Map.empty reqs)) =
          fixed_window maxRequests windowMinutes None (times_of key reqs)"
  proof (cases reqs)
    case Nil
    then show ?thesis by (simp add: rejections_of_def times_of_def)
  next
    case (Cons q rest)
    with sorted have "\<forall>x \<in> set reqs. fst q \<le> fst x" by auto
    from rate_run_refines [OF sorted this, of Map.empty key None] show ?thesis by simp
  qed
qed

text \<open>In the mixed run the user's third request is rejected and the fourth, after the
  reset time, is admitted; the anonymous request in between changes nothing.\<close>

theorem userRateLimit_fixed_window_witness:
  "sorted (map fst mixed_trace)
   \<and> rejections_of ''u1'' mixed_trace (snd (rate_run 2 1 Map.empty mixed_trace))
       = [False, False, True, False]
   \<and> fixed_window 2 1 None (times_of ''u1'' mixed_trace) = [False, False, True, False]"
proof -
  have s: "sorted (map fst mixed_trace)" by (simp add: mixed_trace_def)
  have f: "fixed_window 2 1 None (times_of ''u1'' mixed_trace) = [False, False, True, False]"
    by (simp add: mixed_trace_def times_of_def sample_rate_keys current_window_def Let_def)
  from userRateLimit_fixed_window [of 2 1 Map.empty 0 sample_request mixed_trace "''u1''"] f s
  show ?thesis by simp
qed

section \<open>Properties of the authentication routes\<close>

lemma sample_env_fields:
  "now sample_env = 1000" "db_write sample_env d = None"
  "bcrypt_hash sample_env pw = Inr (''hash:'' @ pw)"
  "findOne_email sample_env m = Inr (if m = ''amina@example.com'' then Some sample_user else None)"
  by (simp_all add: sample_env_def)

lemma lower_amina: "toLowerCase ''Amina@Example.com'' = ''amina@example.com''"
  by code_simp

subsection \<open>POST /signup\<close>

lemma validate_role: "role u \<notin> set role_enum \<Longrightarrow> validate u \<noteq> []"
  by (simp add: validate_def)

lemma save_new_invalid: "validate u \<noteq> [] \<Longrightarrow> save_new e u = Inl (ValidationError (validate u))"
  by (cases "validate u") (simp_all add: save_new_def)

lemma signup_invalid:
  "\<not> signup_valid b \<Longrightarrow> res_status (fst (signup e b)) = 400 \<and> snd (signup e b) = None"
  by (auto simp: signup_valid_def signup_def send_def)

lemma signup_missing:
  "\<not> truthy (body_firstName b) \<or> \<not> truthy (body_lastName b) \<or> \<not> truthy (body_email b)
     \<or> \<not> truthy (body_password b) \<Longrightarrow> \<not> signup_valid b"
  by (auto simp: signup_valid_def)

lemma signup_valid_step:
  "signup_valid b \<Longrightarrow>
   signup e b =
     (case findOne_email e (toLowerCase (text_of (body_email b))) of
        Inl error \<Rightarrow> (signup_failed, None)
      | Inr (Some existingUser) \<Rightarrow>
          (send 409 (error_body ''User already exists''
             ''An account with this email already exists''), None)
      | Inr None \<Rightarrow>
          (case bcrypt_hash e (text_of (body_password b)) of
             Inl error \<Rightarrow> (signup_failed, None)
           | Inr hashedPassword \<Rightarrow>
               (case save_new e (new_User e b hashedPassword) of
                  Inl error \<Rightarrow> (signup_failed, None)
                | Inr newUser \<Rightarrow>
                    (send 201 (JObj
                       [(''success'', JBool True),
                        (''message'', JStr ''Account created successfully''),
                        (''user'', JObj (signup_userResponse newUser)),
                        (''token'', JStr (jwt_sign e (auth_payload newUser) ''7d''))]),
                     Some newUser))))"
  by (simp add: signup_valid_def signup_def Let_def split: sum.split option.split)

lemma userResponse_keys:
  "set (js_keys (signup_userResponse u))
     \<subseteq> {''id'', ''firstName'', ''lastName'', ''email'', ''role'', ''isVerified'', ''createdAt''}"
  by (auto simp: signup_userResponse_def js_keys_def opt_prop_def split: option.splits)

lemma userResponse_no_password: "''password'' \<notin> set (js_keys (signup_userResponse u))"
  using userResponse_keys [of u] by auto

text \<open>
  Claim C5, amended. \<open>POST /api/auth/signup\<close> returns 400 when any of first name, last
  name, email or password is missing, when the email fails the format check, or when the
  password is shorter than 8 characters. Past these checks it returns 409 when an account
  with the lowercased email already exists; when there is none and hashing the password
  and saving the new user succeed, it returns 201 with a signed token and a user object
  that does not contain the password; and when the lookup, the hashing or the save
  throws, it returns 500.
\<close>

theorem signup_statuses:
  "(\<not> truthy (body_firstName b) \<or> \<not> truthy (body_lastName b) \<or> \<not> truthy (body_email b)
      \<or> \<not> truthy (body_password b) \<or> \<not> regex_test emailRegex (text_of (body_email b))
      \<or> length (text_of (body_password b)) < 8
        \<longrightarrow> res_status (fst (signup e b)) = 400 \<and> snd (signup e b) = None)
   \<and> (signup_valid b
        \<and> findOne_email e (toLowerCase (text_of (body_email b))) = Inr (Some existingUser)
        \<longrightarrow> res_status (fst (signup e b)) = 409 \<and> snd (signup e b) = None)
   \<and> (signup_valid b
        \<and> findOne_email e (toLowerCase (text_of (body_email b))) = Inr None
        \<and> bcrypt_hash e (text_of (body_password b)) = Inr hashedPassword
        \<and> save_new e (new_User e b hashedPassword) = Inr newUser
        \<longrightarrow> signup e b =
              (send 201 (JObj
                 [(''success'', JBool True),
                  (''message'', JStr ''Account created successfully''),
                  (''user'', JObj (signup_userResponse newUser)),
                  (''token'', JStr (jwt_sign e (auth_payload newUser) ''7d''))]),
               Some newUser)
            \<and> ''password'' \<notin> set (js_keys (signup_userResponse newUser)))
   \<and> (signup_valid b
        \<and> (findOne_email e (toLowerCase (text_of (body_email b))) = Inl error
            \<or> findOne_email e (toLowerCase (text_of (body_email b))) = Inr None
               \<and> (bcrypt_hash e (text_of (body_password b)) = Inl error
                   \<or> bcrypt_hash e (text_of (body_password b)) = Inr hashedPassword
                      \<and> save_new e (new_User e b hashedPassword) = Inl error))
        \<longrightarrow> res_status (fst (signup e b)) = 500 \<and> snd (signup e b) = None)"
proof (intro conjI impI)
  assume "\<not> truthy (body_firstName b) \<or> \<not> truthy (body_lastName b) \<or> \<not> truthy (body_email b)
      \<or> \<not> truthy (body_password b) \<or> \<not> regex_test emailRegex (text_of (body_email b))
      \<or> length (text_of (body_password b)) < 8"
  then have "\<not> signup_valid b" by (auto simp: signup_valid_def)
  then show "res_status (fst (signup e b)) = 400" "snd (signup e b) = None"
    using signup_invalid by blast+
next
  assume a: "signup_valid b
        \<and> findOne_email e (toLowerCase (text_of (body_email b))) = Inr (Some existingUser)"
  then show "res_status (fst (signup e b)) = 409" "snd (signup e b) = None"
    by (simp_all add: signup_valid_step send_def)
next
  assume a: "signup_valid b
        \<and> findOne_email e (toLowerCase (text_of (body_email b))) = Inr None
        \<and> bcrypt_hash e (text_of (body_password b)) = Inr hashedPassword
        \<and> save_new e (new_User e b hashedPassword) = Inr newUser"
  then show "signup e b =
              (send 201 (JObj
                 [(''success'', JBool True),
                  (''message'', JStr ''Account created successfully''),
                  (''user'', JObj (signup_userResponse newUser)),
                  (''token'', JStr (jwt_sign e (auth_payload newUser) ''7d''))]),
               Some newUser)"
    by (simp add: signup_valid_step)
  show "''password'' \<notin> set (js_keys (signup_userResponse newUser))"
    by (rule userResponse_no_password)
next
  assume a: "signup_valid b
        \<and> (findOne_email e (toLowerCase (text_of (body_email b))) = Inl error
            \<or> findOne_email e (toLowerCase (text_of (body_email b))) = Inr None
               \<and> (bcrypt_hash e (text_of (body_password b)) = Inl error
                   \<or> bcrypt_hash e (text_of (body_password b)) = Inr hashedPassword
                      \<and> save_new e (new_User e b hashedPassword) = Inl error))"
  then show "res_status (fst (signup e b)) = 500" "snd (signup e b) = None"
    by (auto simp: signup_valid_step signup_failed_def send_def)
qed

lemma good_email: "regex_test emailRegex ''Kip@Maji.org''"
  by code_simp

lemma good_lower: "toLowerCase ''Kip@Maji.org'' = ''kip@maji.org''"
  by code_simp

lemma good_valid: "signup_valid good_signup" "signup_valid bad_role_signup"
  by (simp_all add: signup_valid_def good_signup_def bad_role_signup_def text_of_def good_email
      del: regex_test.simps)

lemma good_email_schema: "regex_test schema_email_match ''kip@maji.org''"
  by code_simp

lemma good_trims: "trim ''kip@maji.org'' = ''kip@maji.org''" "trim ''Kip'' = ''Kip''"
  "trim ''Maji'' = ''Maji''"
  by code_simp+

text \<open>
  The claim that every registration that passes the three checks and meets no existing
  account gets 201 fails: the handler hands any role of the body to the model, the
  schema's \<open>enum\<close> validator rejects \<open>superuser\<close> when the document is saved, and the
  \<open>catch\<close> block answers 500.
\<close>

theorem signup_bad_role_counterexample:
  "signup_valid bad_role_signup
   \<and> findOne_email sample_env (toLowerCase (text_of (body_email bad_role_signup))) = Inr None
   \<and> signup sample_env bad_role_signup = (signup_failed, None)
   \<and> res_status signup_failed = 500"
proof -
  have r: "role (new_User sample_env bad_role_signup h) \<notin> set role_enum" for h
    by (simp add: new_User_def bad_role_signup_def text_of_def role_enum_def)
  have f: "findOne_email sample_env (toLowerCase (text_of (body_email bad_role_signup))) = Inr None"
    by (simp add: bad_role_signup_def good_signup_def text_of_def good_lower sample_env_def)
  have h: "bcrypt_hash sample_env (text_of (body_password bad_role_signup)) = Inr ''hash:riverbank9''"
    by (simp add: bad_role_signup_def good_signup_def text_of_def sample_env_def)
  show ?thesis
    using good_valid(2) f h save_new_invalid [OF validate_role [OF r]]
    by (simp add: signup_valid_step signup_failed_def send_def)
qed

text \<open>
  The same happens to an address that the handler's pattern accepts and the schema's
  \<open>match\<close> pattern rejects, such as one in a top-level domain of more than three letters.
\<close>

lemma long_tld_route: "regex_test emailRegex ''k@m.info''"
  unfolding emailRegex_test
  by (intro exI [of _ "''k''"] exI [of _ "''m''"] exI [of _ "''info''"])
     (simp add: email_part_def is_space_def)

lemma long_tld_schema: "\<not> regex_test schema_email_match ''k@m.info''"
  by code_simp

lemma long_tld_lower: "trim (toLowerCase ''k@m.info'') = ''k@m.info''"
  by code_simp

lemma validate_email: "no_match schema_email_match (email u) \<Longrightarrow> validate u \<noteq> []"
  by (simp add: validate_def)

lemma signup_long_tld:
  "signup_valid long_tld_signup
   \<and> findOne_email sample_env (toLowerCase (text_of (body_email long_tld_signup))) = Inr None
   \<and> signup sample_env long_tld_signup = (signup_failed, None)"
proof -
  have v: "signup_valid long_tld_signup"
    by (simp add: signup_valid_def long_tld_signup_def good_signup_def text_of_def long_tld_route
        del: regex_test.simps)
  have l: "toLowerCase ''k@m.info'' = ''k@m.info''" by code_simp
  have f: "findOne_email sample_env (toLowerCase (text_of (body_email long_tld_signup))) = Inr None"
    by (simp add: long_tld_signup_def text_of_def l sample_env_fields)
  have h: "bcrypt_hash sample_env (text_of (body_password long_tld_signup)) = Inr ''hash:riverbank9''"
    by (simp add: long_tld_signup_def good_signup_def text_of_def sample_env_fields)
  have e: "no_match schema_email_match (email (new_User sample_env long_tld_signup x))" for x
    by (simp add: new_User_def long_tld_signup_def text_of_def long_tld_lower no_match_def
        long_tld_schema del: regex_test.simps)
  show ?thesis
    using v f h save_new_invalid [OF validate_email [OF e]]
    by (simp add: signup_valid_step)
qed

text \<open>A registration that succeeds, one for an email that is taken, one with a short
  password and one while the database is down.\<close>

theorem signup_statuses_witness:
  "res_status (fst (signup sample_env good_signup)) = 201
   \<and> (\<exists>newUser. snd (signup sample_env good_signup) = Some newUser
         \<and> email newUser = Some ''kip@maji.org'' \<and> password newUser = Some ''hash:riverbank9'')
   \<and> res_status (fst (signup sample_env (good_signup\<lparr>body_email := Some ''Amina@example.com''\<rparr>))) = 409
   \<and> res_status (fst (signup sample_env (good_signup\<lparr>body_password := Some ''short''\<rparr>))) = 400
   \<and> res_status (fst (signup db_down_env good_signup)) = 500"
proof -
  have v: "validate (new_User sample_env good_signup ''hash:riverbank9'') = []"
    by (simp add: validate_def new_User_def good_signup_def text_of_def good_lower good_trims
        too_long_def too_short_def no_match_def good_email_schema role_enum_def
        del: regex_test.simps)
  define u where "u = (new_User sample_env good_signup ''hash:riverbank9'')\<lparr>createdAt := Some 1000\<rparr>"
  have s: "save_new sample_env (new_User sample_env good_signup ''hash:riverbank9'') = Inr u"
    by (simp add: save_new_def v sample_env_fields u_def)
  have u: "email u = Some ''kip@maji.org''" "password u = Some ''hash:riverbank9''"
    by (simp_all add: u_def new_User_def good_signup_def text_of_def good_lower good_trims)
  have f: "findOne_email sample_env (toLowerCase (text_of (body_email good_signup))) = Inr None"
    by (simp add: good_signup_def text_of_def good_lower sample_env_def)
  have h: "bcrypt_hash sample_env (text_of (body_password good_signup)) = Inr ''hash:riverbank9''"
    by (simp add: good_signup_def text_of_def sample_env_def)
  have d: "findOne_email db_down_env (toLowerCase (text_of (body_email good_signup)))
      = Inl (plain_error ''MongoNetworkError'')"
    by (simp add: db_down_env_def)
  have short: "length (text_of (body_password (good_signup\<lparr>body_password := Some ''short''\<rparr>))) < 8"
    by (simp add: text_of_def)
  have la: "toLowerCase ''Amina@example.com'' = ''amina@example.com''" by code_simp
  have ra: "regex_test emailRegex ''Amina@example.com''" by code_simp
  have va: "signup_valid (good_signup\<lparr>body_email := Some ''Amina@example.com''\<rparr>)"
    by (simp add: signup_valid_def good_signup_def text_of_def ra del: regex_test.simps)
  have fa: "findOne_email sample_env (toLowerCase (text_of (body_email
      (good_signup\<lparr>body_email := Some ''Amina@example.com''\<rparr>)))) = Inr (Some sample_user)"
    by (simp add: text_of_def la sample_env_def)
  from signup_statuses [of good_signup sample_env _ "''hash:riverbank9''" u] good_valid(1) f h s
  have "signup sample_env good_signup =
              (send 201 (JObj
                 [(''success'', JBool True),
                  (''message'', JStr ''Account created successfully''),
                  (''user'', JObj (signup_userResponse u)),
                  (''token'', JStr (jwt_sign sample_env (auth_payload u) ''7d''))]),
               Some u)" by blast
  moreover from signup_statuses [of "good_signup\<lparr>body_email := Some ''Amina@example.com''\<rparr>"
      sample_env sample_user] va fa
  have "res_status (fst (signup sample_env (good_signup\<lparr>body_email := Some ''Amina@example.com''\<rparr>))) = 409"
    by blast
  moreover from signup_statuses [of "good_signup\<lparr>body_password := Some ''short''\<rparr>" sample_env] short
  have "res_status (fst (signup sample_env (good_signup\<lparr>body_password := Some ''short''\<rparr>))) = 400"
    by blast
  moreover from signup_statuses [of good_signup db_down_env _ _ _ "plain_error ''MongoNetworkError''"]
    good_valid(1) d
  have "res_status (fst (signup db_down_env good_signup)) = 500" by blast
  ultimately show ?thesis using u by (simp add: send_def)
qed

subsection \<open>POST /login\<close>

lemma login_200_resets:
  "res_status (fst (login e b)) = 200 \<longrightarrow>
     (\<exists>user. snd (login e b) = Some user \<and> loginAttempts user = 0)"
  by (simp add: login_def send_def save_def login_failed_def invalid_credentials_def
      account_locked_def Let_def split: sum.split option.split bool.split)

lemma login_locked:
  assumes "truthy (login_email b)" "truthy (login_password b)"
    and "findOne_email e (toLowerCase (text_of (login_email b))) = Inr (Some user)"
    and "loginAttempts user \<ge> 5" "lastLoginAttempt user = Some lastAttempt"
    and "now e < lastAttempt + 30 * 60 * 1000"
  shows "login e b = (account_locked, None)"
  using assms by (simp add: login_def)

lemma login_unlocked:
  assumes "truthy (login_email b)" "truthy (login_password b)"
    and "findOne_email e (toLowerCase (text_of (login_email b))) = Inr (Some user)"
    and "loginAttempts user \<ge> 5" "lastLoginAttempt user = Some lastAttempt"
    and "\<not> now e < lastAttempt + 30 * 60 * 1000"
  shows "res_status (fst (login e b)) \<noteq> 423"
  using assms
  by (simp add: login_def send_def save_def login_failed_def invalid_credentials_def Let_def
      split: sum.split option.split bool.split)

text \<open>
  A wrong password on an account that is not locked counts as a failed attempt: the
  counter goes up by one and the time of the attempt is stored.
\<close>

lemma login_wrong_password:
  assumes "truthy (login_email b)" "truthy (login_password b)"
    and "findOne_email e (toLowerCase (text_of (login_email b))) = Inr (Some user)"
    and "\<not> (loginAttempts user \<ge> 5 \<and> lastLoginAttempt user = None)"
    and "\<not> (loginAttempts user \<ge> 5
            \<and> (case lastLoginAttempt user of None \<Rightarrow> False
                 | Some lastAttempt \<Rightarrow> now e < lastAttempt + 30 * 60 * 1000))"
    and "password user = Some hash"
    and "bcrypt_compare e (text_of (login_password b)) hash = Inr False"
    and "db_write e (user\<lparr>loginAttempts := loginAttempts user + 1,
                          lastLoginAttempt := Some (now e)\<rparr>) = None"
  shows "login e b = (invalid_credentials,
           Some (user\<lparr>loginAttempts := loginAttempts user + 1,
                      lastLoginAttempt := Some (now e)\<rparr>))"
  using assms by (simp add: login_def save_def)

text \<open>
  The handler keeps the date of the last failed attempt together with the counter: if the
  account it finds has a date whenever its counter is positive, so has the account it
  saves. The lock test therefore finds the date it reads on every account that only this
  handler has counted on.
\<close>

lemma login_keeps_attempt_date:
  assumes "findOne_email e (toLowerCase (text_of (login_email b))) = Inr (Some user)"
    and "loginAttempts user \<ge> 0"
    and "loginAttempts user > 0 \<longrightarrow> lastLoginAttempt user \<noteq> None"
  shows "case snd (login e b) of
           None \<Rightarrow> True
         | Some saved \<Rightarrow>
             loginAttempts saved \<ge> 0
             \<and> (loginAttempts saved > 0 \<longrightarrow> lastLoginAttempt saved \<noteq> None)"
  using assms
  by (simp add: login_def save_def Let_def split: sum.split option.split bool.split)

text \<open>
  Claim C2. For every login request that carries an email and a password and whose
  account has 5 or more failed attempts, the endpoint answers 423 (account locked) as
  long as less than 30 minutes have passed since the last failed attempt, whatever
  \<open>bcrypt.compare\<close> would say about the password, and it does not answer 423 once they
  have passed. Every successful login (status 200) saves the account with the counter of
  failed attempts at 0.
\<close>

theorem login_lockout:
  "(truthy (login_email b) \<and> truthy (login_password b)
      \<and> findOne_email e (toLowerCase (text_of (login_email b))) = Inr (Some user)
      \<and> loginAttempts user \<ge> 5 \<and> lastLoginAttempt user = Some lastAttempt \<longrightarrow>
        (if now e < lastAttempt + 30 * 60 * 1000
         then login e b = (account_locked, None)
              \<and> (\<forall>compare. login (e\<lparr>bcrypt_compare := compare\<rparr>) b = login e b)
         else res_status (fst (login e b)) \<noteq> 423))
   \<and> res_status account_locked = 423
   \<and> (res_status (fst (login e b)) = 200 \<longrightarrow>
        (\<exists>saved. snd (login e b) = Some saved \<and> loginAttempts saved = 0))"
proof (intro conjI impI)
  assume a: "truthy (login_email b) \<and> truthy (login_password b)
      \<and> findOne_email e (toLowerCase (text_of (login_email b))) = Inr (Some user)
      \<and> loginAttempts user \<ge> 5 \<and> lastLoginAttempt user = Some lastAttempt"
  show "if now e < lastAttempt + 30 * 60 * 1000
         then login e b = (account_locked, None)
              \<and> (\<forall>compare. login (e\<lparr>bcrypt_compare := compare\<rparr>) b = login e b)
         else res_status (fst (login e b)) \<noteq> 423"
  proof (cases "now e < lastAttempt + 30 * 60 * 1000")
    case True
    have "login (e\<lparr>bcrypt_compare := compare\<rparr>) b = (account_locked, None)" for compare
      using a True by (intro login_locked [of b _ user lastAttempt]) simp_all
    moreover have "login e b = (account_locked, None)"
      using a True by (intro login_locked [of b _ user lastAttempt]) simp_all
    ultimately show ?thesis using True by simp
  next
    case False
    with a login_unlocked [of b e user lastAttempt] show ?thesis by simp
  qed
next
  show "res_status account_locked = 423" by (simp add: account_locked_def send_def)
next
  assume "res_status (fst (login e b)) = 200"
  then show "\<exists>saved. snd (login e b) = Some saved \<and> loginAttempts saved = 0"
    using login_200_resets by blast
qed

text \<open>The locked account is refused one second after its fifth failure even with the
  right password; thirty minutes after it the same login succeeds and the counter is 0.\<close>

theorem login_lockout_witness:
  "loginAttempts locked_user = 5
   \<and> bcrypt_compare locked_env ''correct horse'' ''hash:correct horse'' = Inr True
   \<and> login locked_env good_login = (account_locked, None)
   \<and> res_status (fst (login later_env good_login)) = 200
   \<and> (\<exists>saved. snd (login later_env good_login) = Some saved \<and> loginAttempts saved = 0)"
proof -
  have b: "truthy (login_email good_login)" "truthy (login_password good_login)"
    by (simp_all add: good_login_def)
  have f: "findOne_email locked_env (toLowerCase (text_of (login_email good_login)))
      = Inr (Some locked_user)"
    "findOne_email later_env (toLowerCase (text_of (login_email good_login)))
      = Inr (Some locked_user)"
    by (simp_all add: good_login_def text_of_def lower_amina locked_env_def later_env_def)
  have u: "loginAttempts locked_user = 5" "lastLoginAttempt locked_user = Some 0"
    "password locked_user = Some ''hash:correct horse''"
    by (simp_all add: locked_user_def)
  have n: "now locked_env < 0 + 30 * 60 * 1000" "\<not> now later_env < 0 + 30 * 60 * 1000"
    by (simp_all add: locked_env_def later_env_def sample_env_def)
  have c: "bcrypt_compare locked_env ''correct horse'' ''hash:correct horse'' = Inr True"
    "bcrypt_compare later_env ''correct horse'' ''hash:correct horse'' = Inr True"
    "db_write later_env d = None" for d
    by (simp_all add: locked_env_def later_env_def sample_env_def)
  have ok: "res_status (fst (login later_env good_login)) = 200"
    using b f(2) u n(2) c
    by (simp add: login_def save_def send_def good_login_def text_of_def Let_def)
  from login_lockout [of good_login locked_env locked_user 0]
       login_lockout [of good_login later_env locked_user 0] b f u n c(1) ok
  show ?thesis by simp
qed

subsection \<open>POST /forgot-password\<close>

lemma forgot_password_responses:
  "truthy email_field \<Longrightarrow>
     res_status (fst (forgot_password e email_field)) = 500
     \<or> fst (forgot_password e email_field) = reset_sent"
  by (auto simp: forgot_password_def save_def send_def Let_def split: sum.splits option.splits)

text \<open>
  Claim C9. For every request to \<open>POST /api/auth/forgot-password\<close> that supplies an
  email, any two runs that do not end in a server error (status 500) send the same
  response, with status 200 and the same message, whether or not the lookup finds an
  account: the response does not depend on the existence of the user.
\<close>

theorem forgot_password_hides_existence:
  assumes "truthy email_field"
    and "res_status (fst (forgot_password e1 email_field)) \<noteq> 500"
    and "res_status (fst (forgot_password e2 email_field)) \<noteq> 500"
  shows "fst (forgot_password e1 email_field) = fst (forgot_password e2 email_field)
         \<and> res_status (fst (forgot_password e1 email_field)) = 200
         \<and> res_body (fst (forgot_password e1 email_field)) = JObj
              [(''success'', JBool True),
               (''message'', JStr ''If an account with this email exists, a password reset link has been sent.'')]"
  using forgot_password_responses [OF assms(1), of e1] forgot_password_responses [OF assms(1), of e2]
    assms(2,3)
  by (auto simp: reset_sent_def send_def)

text \<open>The same request against the collection that holds the account and against the
  empty one: equal responses, although only the first run saves a reset token.\<close>

theorem forgot_password_hides_existence_witness:
  "findOne_email sample_env (toLowerCase ''Amina@Example.com'') = Inr (Some sample_user)
   \<and> findOne_email empty_db_env (toLowerCase ''Amina@Example.com'') = Inr None
   \<and> fst (forgot_password sample_env (Some ''Amina@Example.com''))
       = fst (forgot_password empty_db_env (Some ''Amina@Example.com''))
   \<and> res_status (fst (forgot_password sample_env (Some ''Amina@Example.com''))) = 200
   \<and> snd (forgot_password sample_env (Some ''Amina@Example.com''))
       \<noteq> snd (forgot_password empty_db_env (Some ''Amina@Example.com''))"
proof -
  have t: "truthy (Some ''Amina@Example.com'')" by simp
  have a: "fst (forgot_password sample_env (Some ''Amina@Example.com'')) = reset_sent"
    "snd (forgot_password sample_env (Some ''Amina@Example.com'')) \<noteq> None"
    by (simp_all add: forgot_password_def text_of_def lower_amina sample_env_def save_def Let_def)
  have b: "fst (forgot_password empty_db_env (Some ''Amina@Example.com'')) = reset_sent"
    "snd (forgot_password empty_db_env (Some ''Amina@Example.com'')) = None"
    by (simp_all add: forgot_password_def text_of_def lower_amina empty_db_env_def)
  have s: "res_status reset_sent \<noteq> 500" by (simp add: reset_sent_def send_def)
  have f: "findOne_email sample_env (toLowerCase ''Amina@Example.com'') = Inr (Some sample_user)"
    "findOne_email empty_db_env (toLowerCase ''Amina@Example.com'') = Inr None"
    by (simp_all add: lower_amina sample_env_def empty_db_env_def)
  from forgot_password_hides_existence [OF t, of sample_env empty_db_env] a b s f
  show ?thesis by simp
qed

section \<open>Properties of the global error handler\<close>

text \<open>
  The claim that the handler maps every error into 400, 401, 403, 409, 413, 429 or 500
  fails: its first branch maps a \<open>MongoNetworkError\<close> to 503.
\<close>

theorem errorHandler_503_counterexample:
  "res_status (errorHandler sample_env (plain_error ''MongoNetworkError'')) = 503
   \<and> (503 :: int) \<notin> {400, 401, 403, 409, 413, 429, 500}"
  by (simp add: errorHandler_def plain_error_def send_def)

text \<open>
  Claim C3, amended. The single global error handler maps an error named
  \<open>MongoNetworkError\<close> or \<open>MongoTimeoutError\<close> to 503, else one named \<open>ValidationError\<close> to
  400, else one named \<open>JsonWebTokenError\<close> to 401, else one with code \<open>LIMIT_FILE_SIZE\<close>
  to 413, and every other error to the error's own \<open>status\<close> when it has a non-zero one
  and to 500 otherwise. So the status is one of 400, 401, 413, 500 and 503, or it is the
  status the error itself carries (the only way to 403, 409 or 429).
\<close>

theorem errorHandler_statuses:
  "res_status (errorHandler e error) =
     (if err_name error = ''MongoNetworkError'' \<or> err_name error = ''MongoTimeoutError''
      then 503
      else if err_name error = ''ValidationError'' then 400
      else if err_name error = ''JsonWebTokenError'' then 401
      else if err_code error = Some ''LIMIT_FILE_SIZE'' then 413
      else (case err_status error of None \<Rightarrow> 500 | Some s \<Rightarrow> if s = 0 then 500 else s))
   \<and> (res_status (errorHandler e error) \<in> {400, 401, 413, 500, 503}
        \<or> err_status error = Some (res_status (errorHandler e error)))"
  by (auto simp: errorHandler_def send_def Let_def status_or_500_def split: option.splits)

text \<open>One error for each branch below the first, two of them with a status of their own.\<close>

theorem errorHandler_statuses_witness:
  "res_status (errorHandler sample_env (plain_error ''ValidationError'')) = 400
   \<and> res_status (errorHandler sample_env (plain_error ''JsonWebTokenError'')) = 401
   \<and> res_status (errorHandler sample_env
        ((plain_error ''MulterError'')\<lparr>err_code := Some ''LIMIT_FILE_SIZE''\<rparr>)) = 413
   \<and> res_status (errorHandler sample_env
        ((plain_error ''ConflictError'')\<lparr>err_status := Some 409\<rparr>)) = 409
   \<and> res_status (errorHandler sample_env
        ((plain_error ''NotFoundError'')\<lparr>err_status := Some 404\<rparr>)) = 404
   \<and> res_status (errorHandler sample_env (plain_error ''Error'')) = 500"
  using errorHandler_statuses [of sample_env "plain_error ''ValidationError''"]
    errorHandler_statuses [of sample_env "plain_error ''JsonWebTokenError''"]
    errorHandler_statuses [of sample_env "(plain_error ''MulterError'')\<lparr>err_code := Some ''LIMIT_FILE_SIZE''\<rparr>"]
    errorHandler_statuses [of sample_env "(plain_error ''ConflictError'')\<lparr>err_status := Some 409\<rparr>"]
    errorHandler_statuses [of sample_env "(plain_error ''NotFoundError'')\<lparr>err_status := Some 404\<rparr>"]
    errorHandler_statuses [of sample_env "plain_error ''Error''"]
  by (simp add: plain_error_def)


end
